theory Spec2Isabelle
  imports Complex_Main
begin

section \<open>Cells, rows and data frames\<close>

text \<open>
  The loaders hand the validator and the import code a pandas data frame. A cell of it is
  empty, a text, a number or a timestamp. There are two empty cells, both accepted by
  \<open>pd.isna\<close>: \<open>NA\<close> is \<open>NaN\<close> or \<open>None\<close>, and \<open>NaT\<close> is the empty cell of a timestamp
  column. A number is a Python float, which is a rational; arithmetic on floats is left to
  the library (below). A timestamp is its number of seconds since the epoch, without a time
  zone. A character has a code from 0 to 255 and stands for the code point of that number.

  A row lists the cells it has; a column of the frame that a row does not list is an empty
  cell of that row. So every row has a cell for every column of the frame, as in pandas, and
  \<open>row[c]\<close> raises \<open>KeyError\<close> exactly when \<open>c\<close> is not a column of the frame.
\<close>

type_synonym timestamp = rat

datatype cell = NA | NaT | Str string | Num rat | Ts timestamp

type_synonym row = "(string \<times> cell) list"

record dataframe =
  columns :: "string list"
  rows :: "row list"

text \<open>
  Exceptions, by class; \<open>OtherError\<close> is any class other than the three named. The message
  of an exception is a description, not Python's text.
\<close>

datatype exc = KeyError string | ValueError string | TypeError string | OtherError string

fun exc_msg :: "exc \<Rightarrow> string" where
  "exc_msg (KeyError m) = m"
| "exc_msg (ValueError m) = m"
| "exc_msg (TypeError m) = m"
| "exc_msg (OtherError m) = m"

definition cell_at :: "row \<Rightarrow> string \<Rightarrow> cell" where
  "cell_at r c = (case map_of r c of None \<Rightarrow> NA | Some v \<Rightarrow> v)"

text \<open>\<open>row[c]\<close>\<close>

definition row_item :: "string list \<Rightarrow> row \<Rightarrow> string \<Rightarrow> exc + cell" where
  "row_item cols r c = (if c \<in> set cols then Inr (cell_at r c) else Inl (KeyError c))"

text \<open>\<open>row.get(c)\<close>: \<open>None\<close> for a column the frame does not have.\<close>

definition row_get :: "string list \<Rightarrow> row \<Rightarrow> string \<Rightarrow> cell" where
  "row_get cols r c = (if c \<in> set cols then cell_at r c else NA)"

definition isna :: "cell \<Rightarrow> bool" where
  "isna c = (c = NA \<or> c = NaT)"

section \<open>Library functions\<close>

text \<open>
  The date parsers, the float parser and float arithmetic, the string renderings of numbers
  and timestamps (\<open>str\<close>) and the timestamp format \<open>strftime("%Y-%m-%d %H:%M:%S")\<close>
  belong to Python and pandas, not to the repository. They are parameters of the model:
  every theorem below that does not name a library holds for whatever these functions do.
  \<^item> \<open>strptime\<close> is \<open>datetime.strptime(s, "%m/%d/%Y %I:%M %p")\<close>;
  \<^item> \<open>to_datetime\<close> is \<open>pd.to_datetime\<close> on one value; it may give \<open>NaT\<close>, which is
    \<open>None\<close> here;
  \<^item> \<open>to_datetime_coerce column v\<close> is what \<open>pd.to_datetime(column, errors='coerce')\<close>
    makes of the text or number \<open>v\<close> of that column (the format is inferred from the
    column), \<open>None\<close> for \<open>NaT\<close>;
  \<^item> \<open>hours_of_seconds s\<close> is the float \<open>delta.total_seconds() / 3600\<close> for a difference
    of \<open>s\<close> seconds, and \<open>exceeds_tolerance d h\<close> is the float test
    \<open>abs(d - h) > 0.01\<close>.
\<close>

record pylib =
  strptime :: "string \<Rightarrow> exc + timestamp"
  to_datetime :: "cell \<Rightarrow> exc + timestamp option"
  to_datetime_coerce :: "cell list \<Rightarrow> cell \<Rightarrow> timestamp option"
  float_of_string :: "string \<Rightarrow> exc + rat"
  hours_of_seconds :: "rat \<Rightarrow> rat"
  exceeds_tolerance :: "rat \<Rightarrow> rat \<Rightarrow> bool"
  str_num :: "rat \<Rightarrow> string"
  str_ts :: "timestamp \<Rightarrow> string"
  str_nat :: "nat \<Rightarrow> string"
  strftime :: "timestamp \<Rightarrow> string"

definition py_str :: "pylib \<Rightarrow> cell \<Rightarrow> string" where
  "py_str L c =
     (case c of
        NA \<Rightarrow> ''nan''
      | NaT \<Rightarrow> ''NaT''
      | Str s \<Rightarrow> s
      | Num x \<Rightarrow> str_num L x
      | Ts t \<Rightarrow> str_ts L t)"

text \<open>\<open>float(v)\<close>; the callers never pass an empty cell.\<close>

definition py_float :: "pylib \<Rightarrow> cell \<Rightarrow> exc + rat" where
  "py_float L c = (case c of
       Num x \<Rightarrow> Inr x
     | Str s \<Rightarrow> float_of_string L s
     | _ \<Rightarrow> Inl (TypeError ''float() argument must be a string or a real number''))"

text \<open>\<open>':' in title\<close>: membership in a text, \<open>TypeError\<close> on anything else.\<close>

definition has_colon :: "cell \<Rightarrow> exc + bool" where
  "has_colon c = (case c of
       Str s \<Rightarrow> Inr (CHR '':'' \<in> set s)
     | _ \<Rightarrow> Inl (TypeError ''argument is not iterable''))"

text \<open>\<open>title.split(':', 1)[1]\<close>, for a title with a colon: what follows the first colon.\<close>

definition after_colon :: "string \<Rightarrow> string" where
  "after_colon s = tl (dropWhile (\<lambda>c. c \<noteq> CHR '':'') s)"

text \<open>
  The characters that \<open>str.strip()\<close> removes: the white space of Unicode below 256, which is
  U+0009 to U+000D, U+001C to U+0020, U+0085 and U+00A0.
\<close>

definition is_space :: "char \<Rightarrow> bool" where
  "is_space c =
     (let n = (of_char c :: nat)
      in (9 \<le> n \<and> n \<le> 13) \<or> (28 \<le> n \<and> n \<le> 32) \<or> n = 133 \<or> n = 160)"

definition strip :: "string \<Rightarrow> string" where
  "strip s = rev (dropWhile is_space (rev (dropWhile is_space s)))"

section \<open>The validator (validation.py)\<close>

definition VALID_ENTRY_TYPES :: "string list" where
  "VALID_ENTRY_TYPES =
     [''email-type'', ''doc-type'', ''meeting-type'', ''phone-call-type'',
      ''case-note-type'', ''billing-type'', ''other-type'']"

definition BILLING_CATEGORIES :: "string list" where
  "BILLING_CATEGORIES =
    [
     ''Hearing Preparation'', ''Hearing'',
     ''Hearing Notes & Follow-up'', ''Billing & Invoicing'',
     ''Draft correspondence'', ''Draft email'',
     ''Draft documents'', ''Draft records'',
     ''Review correspondence'', ''Review email'',
     ''Review documents'', ''Review records'',
     ''Client Interview Preparation'', ''Client Interview'',
     ''Client Interview Notes & Follow-up'', ''Client Meeting Preparation'',
     ''Client Meeting'', ''Client Meeting Notes & Follow-up'',
     ''Client Status Update Preparation'', ''Client Status Update'',
     ''Client Status Update Notes & Follow-up'', ''Conference with Attorney Preparation'',
     ''Conference with Attorney'', ''Conference with Attorney Notes & Follow-up'',
     ''Settlement Agreement Drafting'', ''Settlement Agreement Review & Analysis'',
     ''Court Appearance Preparation'', ''Court Appearance'',
     ''Court Appearance Notes & Follow-up'', ''Mediation Meeting Preparation'',
     ''Mediation Meeting'', ''Mediation Meeting Notes & Follow-up'',
     ''Discovery Drafting'', ''Discovery Review'',
     ''Discovery Production'', ''Legal Research'',
     ''Settlement Preparation'', ''Settlement'',
     ''Settlement Notes & Follow-up'', ''Mediation Preparation'',
     ''Mediation'', ''Mediation Notes & Follow-up'',
     ''Meeting with Opposing Counsel Preparation'', ''Meeting with Opposing Counsel'',
     ''Meeting with Opposing Counsel Notes & Follow-up'', ''Phone Call Preparation'',
     ''Phone Call'', ''Phone Call Notes & Follow-up'',
     ''Prepare Report'', ''Review Report'',
     ''Team/Case Strategy Meeting Preparation'', ''Team/Case Strategy Meeting'',
     ''Team/Case Strategy Meeting Notes & Follow-up'', ''Trial Preparation'',
     ''Travel Time'']"

definition CPCS_BILLING_CATEGORIES :: "string list" where
  "CPCS_BILLING_CATEGORIES =
     [''Client Interview'', ''Conference With Attorney'', ''Court Appearance'',
      ''Examine/Test Material'', ''Phone Calls'', ''Prepare Report'',
      ''Review Documents'', ''Travel Time'']"

definition required_columns :: "string list" where
  "required_columns =
     [''type'', ''date'', ''title'', ''from'', ''to'', ''cc'', ''content'',
      ''attachments'', ''synopsis'', ''comments'']"

datatype invalid_type = InvalidType (it_row: nat) (it_type: string)

datatype allowed = AllowedList "string list" | AllowedNote string

datatype category_error =
  CategoryError (ce_row: nat) (ce_category: string) (ce_allowed: allowed)

datatype date_error =
    BillingSequence nat string string
  | BillingDuration nat rat cell
  | DateError nat string string

fun de_row :: "date_error \<Rightarrow> nat" where
  "de_row (BillingSequence n _ _) = n"
| "de_row (BillingDuration n _ _) = n"
| "de_row (DateError n _ _) = n"

record validation =
  valid :: bool
  missing_columns :: "string list"
  invalid_types :: "invalid_type list"
  date_format_errors :: "date_error list"
  billing_category_errors :: "category_error list"
  sample_errors :: "invalid_type list \<times> date_error list \<times> category_error list"

definition validation_init :: validation where
  "validation_init =
     \<lparr>valid = True, missing_columns = [], invalid_types = [], date_format_errors = [],
      billing_category_errors = [], sample_errors = ([], [], [])\<rparr>"

text \<open>The loop over the required columns.\<close>

fun check_columns :: "string list \<Rightarrow> string list \<Rightarrow> validation \<Rightarrow> validation" where
  "check_columns df_columns [] v = v"
| "check_columns df_columns (col # cols) v =
     check_columns df_columns cols
       (if col \<notin> set df_columns
        then v\<lparr>valid := False, missing_columns := missing_columns v @ [col]\<rparr>
        else v)"

text \<open>The loop over \<open>enumerate(df['type'])\<close>.\<close>

fun check_types :: "pylib \<Rightarrow> nat \<Rightarrow> cell list \<Rightarrow> invalid_type list" where
  "check_types L idx [] = []"
| "check_types L idx (entry_type # rest) =
     (if isna entry_type \<or> entry_type \<notin> Str ` set VALID_ENTRY_TYPES
      then [InvalidType (idx + 2) (if \<not> isna entry_type then py_str L entry_type else ''NA'')]
      else [])
     @ check_types L (Suc idx) rest"

text \<open>
  The billing-category loop. The category is taken from the title only under the guard
  \<open>not pd.isna(title) and ':' in title\<close>; \<open>is_cpcs\<close> is the constant \<open>False\<close> of the source.
\<close>

definition is_cpcs :: bool where
  "is_cpcs = False"

definition validation_category :: "cell \<Rightarrow> exc + string option" where
  "validation_category title =
     (if isna title then Inr None
      else case has_colon title of
             Inl e \<Rightarrow> Inl e
           | Inr False \<Rightarrow> Inr None
           | Inr True \<Rightarrow> Inr (Some (strip (after_colon (case title of Str s \<Rightarrow> s | _ \<Rightarrow> [])))))"

definition category_check_row :: "nat \<Rightarrow> row \<Rightarrow> exc + category_error list" where
  "category_check_row idx r =
     (if cell_at r ''type'' = Str ''billing-type'' then
        (case validation_category (cell_at r ''title'') of
           Inl e \<Rightarrow> Inl e
         | Inr None \<Rightarrow> Inr []
         | Inr (Some category) \<Rightarrow>
             if is_cpcs \<and> category \<notin> set CPCS_BILLING_CATEGORIES
             then Inr [CategoryError (idx + 2) category (AllowedList CPCS_BILLING_CATEGORIES)]
             else if \<not> is_cpcs \<and> category \<notin> set BILLING_CATEGORIES
             then Inr [CategoryError (idx + 2) category (AllowedNote ''General billing categories'')]
             else Inr [])
      else Inr [])"

fun check_categories :: "nat \<Rightarrow> row list \<Rightarrow> exc + category_error list" where
  "check_categories idx [] = Inr []"
| "check_categories idx (r # rs) =
     (case category_check_row idx r of
        Inl e \<Rightarrow> Inl e
      | Inr es \<Rightarrow> (case check_categories (Suc idx) rs of
                    Inl e \<Rightarrow> Inl e
                  | Inr es' \<Rightarrow> Inr (es @ es')))"

text \<open>
  The date loop. The body of the \<open>try\<close> gives the errors it has appended and the exception
  it stopped with, if any: an error appended before an exception stays in the list.
\<close>

definition coerce_ts :: "pylib \<Rightarrow> cell \<Rightarrow> exc + timestamp option" where
  "coerce_ts L c = (case c of Ts t \<Rightarrow> Inr (Some t) | _ \<Rightarrow> to_datetime L c)"

definition ts_ge :: "timestamp option \<Rightarrow> timestamp option \<Rightarrow> bool" where
  "ts_ge a b = (case (a, b) of (Some x, Some y) \<Rightarrow> x \<ge> y | _ \<Rightarrow> False)"

text \<open>
  \<open>(stop_dt - start_dt).total_seconds() / 3600\<close>; \<open>None\<close> is the float \<open>nan\<close>, which a
  \<open>NaT\<close> gives and which no comparison accepts.
\<close>

definition duration_hours ::
  "pylib \<Rightarrow> timestamp option \<Rightarrow> timestamp option \<Rightarrow> rat option" where
  "duration_hours L start_dt stop_dt =
     (case (start_dt, stop_dt) of
        (Some x, Some y) \<Rightarrow> Some (hours_of_seconds L (y - x))
      | _ \<Rightarrow> None)"

definition date_row_body ::
  "pylib \<Rightarrow> string list \<Rightarrow> nat \<Rightarrow> row \<Rightarrow> date_error list \<times> exc option" where
  "date_row_body L cols idx r =
     (let date = cell_at r ''date'' in
      if isna date then ([], None)
      else case (case date of Ts t \<Rightarrow> Inr t | _ \<Rightarrow> strptime L (py_str L date)) of
        Inl e \<Rightarrow> ([], Some e)
      | Inr _ \<Rightarrow>
          if cell_at r ''type'' = Str ''billing-type'' then
            (let billing_start = row_get cols r ''billing-start'';
                 billing_stop = row_get cols r ''billing-stop'';
                 billing_hrs = row_get cols r ''billing-hrs''
             in if \<not> isna billing_start \<and> \<not> isna billing_stop then
                  (case coerce_ts L billing_start of
                     Inl e \<Rightarrow> ([], Some e)
                   | Inr start_dt \<Rightarrow>
                  (case coerce_ts L billing_stop of
                     Inl e \<Rightarrow> ([], Some e)
                   | Inr stop_dt \<Rightarrow>
                     (let errs = (if ts_ge start_dt stop_dt
                                  then [BillingSequence (idx + 2) (py_str L billing_start)
                                          (py_str L billing_stop)]
                                  else [])
                      in if \<not> isna billing_hrs then
                           (case duration_hours L start_dt stop_dt of
                              None \<Rightarrow>
                                (case py_float L billing_hrs of
                                   Inl e \<Rightarrow> (errs, Some e)
                                 | Inr h \<Rightarrow> (errs, None))
                            | Some duration \<Rightarrow>
                                (case py_float L billing_hrs of
                                   Inl e \<Rightarrow> (errs, Some e)
                                 | Inr h \<Rightarrow>
                                     if exceeds_tolerance L duration h
                                     then (errs @ [BillingDuration (idx + 2) duration billing_hrs],
                                           None)
                                     else (errs, None)))
                         else (errs, None))))
                else ([], None))
          else ([], None))"

definition date_check_row ::
  "pylib \<Rightarrow> string list \<Rightarrow> nat \<Rightarrow> row \<Rightarrow> exc + date_error list" where
  "date_check_row L cols idx r =
     (case date_row_body L cols idx r of
        (errs, None) \<Rightarrow> Inr errs
      | (errs, Some e) \<Rightarrow>
          (case e of
             ValueError m \<Rightarrow>
               Inr (errs @ [DateError (idx + 2)
                      (if \<not> isna (cell_at r ''date'') then py_str L (cell_at r ''date'') else ''NA'') m])
           | TypeError m \<Rightarrow>
               Inr (errs @ [DateError (idx + 2)
                      (if \<not> isna (cell_at r ''date'') then py_str L (cell_at r ''date'') else ''NA'') m])
           | _ \<Rightarrow> Inl e))"

fun check_dates :: "pylib \<Rightarrow> string list \<Rightarrow> nat \<Rightarrow> row list \<Rightarrow> exc + date_error list" where
  "check_dates L cols idx [] = Inr []"
| "check_dates L cols idx (r # rs) =
     (case date_check_row L cols idx r of
        Inl e \<Rightarrow> Inl e
      | Inr es \<Rightarrow> (case check_dates L cols (Suc idx) rs of
                    Inl e \<Rightarrow> Inl e
                  | Inr es' \<Rightarrow> Inr (es @ es')))"

definition validate_case_file_data :: "pylib \<Rightarrow> dataframe \<Rightarrow> exc + validation" where
  "validate_case_file_data L df =
     (let v0 = check_columns (columns df) required_columns validation_init in
      if \<not> valid v0 then Inr v0
      else
        (let types_found = check_types L 0 (map (\<lambda>r. cell_at r ''type'') (rows df));
             v1 = (if types_found \<noteq> [] then v0\<lparr>valid := False, invalid_types := types_found\<rparr>
                   else v0)
         in (case check_categories 0 (rows df) of
               Inl e \<Rightarrow> Inl e
             | Inr category_found \<Rightarrow>
                 (let v2 = (if category_found \<noteq> []
                            then v1\<lparr>valid := False, billing_category_errors := category_found\<rparr>
                            else v1)
                  in (case check_dates L (columns df) 0 (rows df) of
                        Inl e \<Rightarrow> Inl e
                      | Inr date_found \<Rightarrow>
                          (let v3 = (if date_found \<noteq> []
                                     then v2\<lparr>valid := False, date_format_errors := date_found\<rparr>
                                     else v2)
                           in Inr (v3\<lparr>sample_errors :=
                                     (take 5 types_found, take 5 date_found,
                                      take 5 category_found)\<rparr>)))))))"

section \<open>The store\<close>

text \<open>
  The SQLite connection: the tables as of the last commit, the tables as the connection sees
  them (with its uncommitted writes), and the row id of its last insert. What a statement
  binds and which constraints the tables have is a parameter: a store says which rows it
  accepts from \<open>DataFrame.to_sql\<close> (which converts the cells itself), which from the
  \<open>INSERT\<close> statements of the repository, which columns
  \<open>PRAGMA table_info(case_file_entries)\<close> lists, and whether \<open>to_sql\<close> commits.
\<close>

record billing_entry =
  be_case_id :: int
  be_entry_id :: int
  be_category :: string
  be_start :: cell
  be_stop :: cell
  be_hours :: cell
  be_description :: cell

record tables =
  case_file_entries :: "(int \<times> row) list"
  billing_entries :: "(int \<times> billing_entry) list"

record db =
  committed :: tables
  working :: tables
  last_insert_rowid :: int

record store =
  table_columns :: "string list"
  to_sql_accepted :: "tables \<Rightarrow> row \<Rightarrow> bool"
  entry_accepted :: "tables \<Rightarrow> row \<Rightarrow> bool"
  billing_accepted :: "tables \<Rightarrow> billing_entry \<Rightarrow> bool"
  to_sql_commits :: bool

definition commit :: "db \<Rightarrow> db" where
  "commit d = d\<lparr>committed := working d\<rparr>"

definition rollback :: "db \<Rightarrow> db" where
  "rollback d = d\<lparr>working := committed d\<rparr>"

text \<open>A generated row id: one more than the largest in the table, 1 in an empty table.\<close>

definition new_rowid :: "int list \<Rightarrow> int" where
  "new_rowid ids = (case ids of [] \<Rightarrow> 1 | i # rest \<Rightarrow> fold max rest i + 1)"

text \<open>
  Modelled from the spec: schema.sql is not among the sources. Section 3 of the
  specification makes \<open>entry_id\<close> the generated primary key of a Case File Entry, and
  \<open>last_insert_rowid()\<close> and \<open>cursor.lastrowid\<close> stand for it in the code, so it is
  the row id of \<open>case_file_entries\<close>: a row with an integer in its \<open>entry_id\<close> cell asks
  for that id, a row without the cell or with an empty one gets a generated id, and any other
  cell is a datatype mismatch.
\<close>

definition requested_rowid :: "row \<Rightarrow> exc + int option" where
  "requested_rowid r =
     (case cell_at r ''entry_id'' of
        NA \<Rightarrow> Inr None
      | NaT \<Rightarrow> Inr None
      | Num x \<Rightarrow> if of_int \<lfloor>x\<rfloor> = x then Inr (Some \<lfloor>x\<rfloor>)
                 else Inl (OtherError ''datatype mismatch'')
      | _ \<Rightarrow> Inl (OtherError ''datatype mismatch''))"

definition store_entry :: "db \<Rightarrow> row \<Rightarrow> exc + db" where
  "store_entry d r =
     (case requested_rowid r of
        Inl e \<Rightarrow> Inl e
      | Inr None \<Rightarrow>
          (let i = new_rowid (map fst (case_file_entries (working d)))
           in Inr (d\<lparr>working := (working d)\<lparr>case_file_entries :=
                                       case_file_entries (working d) @ [(i, r)]\<rparr>,
                     last_insert_rowid := i\<rparr>))
      | Inr (Some i) \<Rightarrow>
          if i \<in> set (map fst (case_file_entries (working d)))
          then Inl (OtherError ''UNIQUE constraint failed: case_file_entries.entry_id'')
          else Inr (d\<lparr>working := (working d)\<lparr>case_file_entries :=
                                       case_file_entries (working d) @ [(i, r)]\<rparr>,
                     last_insert_rowid := i\<rparr>))"

text \<open>An \<open>INSERT INTO case_file_entries\<close> through the cursor, and one made by \<open>to_sql\<close>.\<close>

definition insert_entry :: "store \<Rightarrow> db \<Rightarrow> row \<Rightarrow> exc + db" where
  "insert_entry S d r =
     (if entry_accepted S (working d) r then store_entry d r
      else Inl (OtherError ''INSERT INTO case_file_entries failed''))"

definition to_sql_insert :: "store \<Rightarrow> db \<Rightarrow> row \<Rightarrow> exc + db" where
  "to_sql_insert S d r =
     (if to_sql_accepted S (working d) r then store_entry d r
      else Inl (OtherError ''to_sql failed''))"

definition insert_billing :: "store \<Rightarrow> db \<Rightarrow> billing_entry \<Rightarrow> exc + db" where
  "insert_billing S d b =
     (if billing_accepted S (working d) b then
        (let i = new_rowid (map fst (billing_entries (working d)))
         in Inr (d\<lparr>working := (working d)\<lparr>billing_entries :=
                                     billing_entries (working d) @ [(i, b)]\<rparr>,
                   last_insert_rowid := i\<rparr>))
      else Inl (OtherError ''INSERT INTO billing_entries failed''))"

section \<open>The row mapper\<close>

definition column_mapping :: "(string \<times> string) list" where
  "column_mapping =
     [(''from'', ''from_party''), (''to'', ''to_party''), (''cc'', ''cc_party''),
      (''billing-start'', ''billing_start''), (''billing-stop'', ''billing_stop''),
      (''billing-hrs'', ''billing_hrs'')]"

definition rename_key :: "string \<Rightarrow> string" where
  "rename_key k = (case map_of column_mapping k of None \<Rightarrow> k | Some k' \<Rightarrow> k')"

definition date_columns :: "string list" where
  "date_columns = [''date'', ''billing_start'', ''billing_stop'']"

text \<open>
  \<open>pd.to_datetime(column, errors='coerce')\<close>, unless the column holds timestamps already:
  a timestamp stays, an empty cell is \<open>NaT\<close>, and a text or a number becomes what the
  library makes of it in that column, a timestamp or \<open>NaT\<close>.
\<close>

definition coerce_datetime :: "pylib \<Rightarrow> cell list \<Rightarrow> cell \<Rightarrow> cell" where
  "coerce_datetime L column c =
     (case c of
        Ts t \<Rightarrow> Ts t
      | NA \<Rightarrow> NaT
      | NaT \<Rightarrow> NaT
      | _ \<Rightarrow> (case to_datetime_coerce L column c of Some t \<Rightarrow> Ts t | None \<Rightarrow> NaT))"

definition convert_date_column :: "pylib \<Rightarrow> string \<Rightarrow> dataframe \<Rightarrow> dataframe" where
  "convert_date_column L col d =
     (if col \<in> set (columns d)
      then d\<lparr>rows := map (\<lambda>r. (col, coerce_datetime L (map (\<lambda>r. cell_at r col) (rows d))
                                        (cell_at r col)) # r) (rows d)\<rparr>
      else d)"

text \<open>\<open>prepare_data_for_db\<close> of app.py.\<close>

definition prepare_data_for_db :: "pylib \<Rightarrow> dataframe \<Rightarrow> int \<Rightarrow> dataframe" where
  "prepare_data_for_db L df case_id =
     (let with_case =
            \<lparr>columns = (if ''case_id'' \<in> set (columns df) then columns df
                        else columns df @ [''case_id'']),
             rows = map (\<lambda>r. (''case_id'', Num (of_int case_id)) # r) (rows df)\<rparr>;
          renamed =
            \<lparr>columns = map rename_key (columns with_case),
             rows = map (map (\<lambda>(k, v). (rename_key k, v))) (rows with_case)\<rparr>
      in fold (convert_date_column L) date_columns renamed)"

text \<open>
  Modelled from the spec: \<open>data_processing.prepare_data_for_import\<close>, which excel_loader.py
  imports, is not among the sources. Section 4.3 of the specification (Row Mapper) gives it
  the operations of \<open>prepare_data_for_db\<close>: attach the case id to every row, rename the six
  source columns, coerce \<open>date\<close>, \<open>billing_start\<close> and \<open>billing_stop\<close> to timestamps with
  unparseable or absent values as null, never failing.
\<close>

definition prepare_data_for_import :: "pylib \<Rightarrow> dataframe \<Rightarrow> int \<Rightarrow> dataframe" where
  "prepare_data_for_import L df case_id =
     (let with_case =
            \<lparr>columns = (if ''case_id'' \<in> set (columns df) then columns df
                        else columns df @ [''case_id'']),
             rows = map (\<lambda>r. (''case_id'', Num (of_int case_id)) # r) (rows df)\<rparr>;
          renamed =
            \<lparr>columns = map rename_key (columns with_case),
             rows = map (map (\<lambda>(k, v). (rename_key k, v))) (rows with_case)\<rparr>
      in fold (convert_date_column L) date_columns renamed)"

text \<open>\<open>df[cols]\<close>: the frame with the columns \<open>cols\<close> only.\<close>

definition select_columns :: "string list \<Rightarrow> dataframe \<Rightarrow> dataframe" where
  "select_columns cols df =
     \<lparr>columns = cols, rows = map (\<lambda>r. map (\<lambda>c. (c, cell_at r c)) cols) (rows df)\<rparr>"

section \<open>The loader and the import (excel_loader.py)\<close>

text \<open>
  \<open>str.lower()\<close> on the characters below 256: the capital letters are A to Z and U+00C0
  to U+00DE without the sign U+00D7, and the small letter is 32 further.
\<close>

definition lower_char :: "char \<Rightarrow> char" where
  "lower_char c =
     (let n = (of_char c :: nat)
      in if (65 \<le> n \<and> n \<le> 90) \<or> (192 \<le> n \<and> n \<le> 222 \<and> n \<noteq> 215)
         then char_of (n + 32) else c)"

definition lower :: "string \<Rightarrow> string" where
  "lower s = map lower_char s"

text \<open>
  \<open>os.path.splitext\<close> (POSIX): the extension starts at the last dot of the last path
  component, unless only dots come before it in that component.
\<close>

definition splitext :: "string \<Rightarrow> string \<times> string" where
  "splitext p =
     (let base = rev (takeWhile (\<lambda>c. c \<noteq> CHR ''/'') (rev p)) in
      if CHR ''.'' \<notin> set base then (p, [])
      else
        (let ext_len = Suc (length (takeWhile (\<lambda>c. c \<noteq> CHR ''.'') (rev base)));
             stem = take (length base - ext_len) base
         in if filter (\<lambda>c. c \<noteq> CHR ''.'') stem \<noteq> []
            then (take (length p - ext_len) p, drop (length p - ext_len) p)
            else (p, [])))"

datatype file_type = Excel | Csv | Unknown

definition identify_file_type :: "string \<Rightarrow> file_type" where
  "identify_file_type file_path =
     (let ext = snd (splitext (lower file_path)) in
      if ext \<in> set [''.xlsx'', ''.xls'', ''.xlsm''] then Excel
      else if ext = ''.csv'' then Csv
      else Unknown)"

text \<open>
  The readers are pandas functions and parameters here. What the code does to the outside is
  recorded as a trace of events: a read of a file, the opening and the closing of the
  database connection. Opening the connection is taken to succeed.
\<close>

record env =
  read_excel :: "string \<Rightarrow> exc + dataframe"
  read_csv :: "string \<Rightarrow> char \<Rightarrow> exc + dataframe"

datatype event = ReadExcel string | ReadCsv string char | Connect string | Close

definition load_data_to_dataframe :: "env \<Rightarrow> string \<Rightarrow> (exc + dataframe) \<times> event list" where
  "load_data_to_dataframe E file_path =
     (case identify_file_type file_path of
        Excel \<Rightarrow> (read_excel E file_path, [ReadExcel file_path])
      | Csv \<Rightarrow> (read_csv E file_path (CHR 0x09), [ReadCsv file_path (CHR 0x09)])
      | Unknown \<Rightarrow> (Inl (ValueError (''Unsupported file type: '' @ file_path)), []))"

record load_results =
  success :: bool
  entries_added :: nat
  billing_entries_added :: nat
  errors :: "string list"

text \<open>
  \<open>filtered_df.to_sql('case_file_entries', conn, if_exists='append', index=False)\<close>: the
  rows are inserted in order; a failing insert rolls back and raises.
\<close>

fun to_sql_rows :: "store \<Rightarrow> db \<Rightarrow> row list \<Rightarrow> exc option \<times> db" where
  "to_sql_rows S d [] = (None, d)"
| "to_sql_rows S d (r # rs) =
     (case to_sql_insert S d r of
        Inl e \<Rightarrow> (Some e, d)
      | Inr d' \<Rightarrow> to_sql_rows S d' rs)"

definition to_sql :: "store \<Rightarrow> db \<Rightarrow> dataframe \<Rightarrow> exc option \<times> db" where
  "to_sql S d fdf =
     (case to_sql_rows S d (rows fdf) of
        (Some e, d') \<Rightarrow> (Some e, rollback d')
      | (None, d') \<Rightarrow> (None, if to_sql_commits S then commit d' else d'))"

text \<open>
  \<open>df[df['type'] == 'billing-type']\<close> with \<open>df.index.get_loc(row.name)\<close>: the billing rows,
  each with its position in the frame (the index of a loaded frame is \<open>0, 1, 2, ...\<close>).
\<close>

fun billing_rows_from :: "nat \<Rightarrow> row list \<Rightarrow> (nat \<times> row) list" where
  "billing_rows_from idx [] = []"
| "billing_rows_from idx (r # rs) =
     (if cell_at r ''type'' = Str ''billing-type'' then [(idx, r)] else [])
     @ billing_rows_from (Suc idx) rs"

text \<open>The category of excel_loader.py, lines 108 to 113.\<close>

definition loader_billing_category :: "cell \<Rightarrow> exc + cell" where
  "loader_billing_category title =
     (case has_colon title of
        Inl e \<Rightarrow> Inl e
      | Inr True \<Rightarrow> Inr (Str (strip (after_colon (case title of Str s \<Rightarrow> s | _ \<Rightarrow> []))))
      | Inr False \<Rightarrow> Inr title)"

definition cell_text :: "cell \<Rightarrow> string" where
  "cell_text c = (case c of Str s \<Rightarrow> s | _ \<Rightarrow> [])"

definition loader_billing_row ::
  "store \<Rightarrow> string list \<Rightarrow> int \<Rightarrow> int \<Rightarrow> db \<Rightarrow> nat \<times> row \<Rightarrow> exc + db" where
  "loader_billing_row S cols case_id first_id d ir =
     (let orig_idx = fst ir; r = snd ir; entry_id = first_id + int orig_idx in
      case row_item cols r ''title'' of
        Inl e \<Rightarrow> Inl e
      | Inr title \<Rightarrow>
      (case loader_billing_category title of
        Inl e \<Rightarrow> Inl e
      | Inr billing_category \<Rightarrow>
          (let billing_start = row_get cols r ''billing-start'';
               billing_stop = row_get cols r ''billing-stop'';
               billing_hrs = row_get cols r ''billing-hrs''
           in case row_item cols r ''content'' of
                Inl e \<Rightarrow> Inl e
              | Inr content \<Rightarrow>
                  insert_billing S d
                    \<lparr>be_case_id = case_id, be_entry_id = entry_id,
                     be_category = cell_text billing_category,
                     be_start = billing_start, be_stop = billing_stop,
                     be_hours = billing_hrs, be_description = content\<rparr>)))"

fun loader_billing_loop ::
  "store \<Rightarrow> string list \<Rightarrow> int \<Rightarrow> int \<Rightarrow> db \<Rightarrow> nat \<Rightarrow> (nat \<times> row) list
     \<Rightarrow> exc option \<times> db \<times> nat" where
  "loader_billing_loop S cols case_id first_id d n [] = (None, d, n)"
| "loader_billing_loop S cols case_id first_id d n (ir # irs) =
     (case loader_billing_row S cols case_id first_id d ir of
        Inl e \<Rightarrow> (Some e, d, n)
      | Inr d' \<Rightarrow> loader_billing_loop S cols case_id first_id d' (Suc n) irs)"

definition load_case_file_to_db ::
  "pylib \<Rightarrow> store \<Rightarrow> db \<Rightarrow> dataframe \<Rightarrow> int \<Rightarrow> load_results \<times> db" where
  "load_case_file_to_db L S d df case_id =
     (let results = \<lparr>success = False, entries_added = 0, billing_entries_added = 0, errors = []\<rparr>;
          prepared_df = prepare_data_for_import L df case_id;
          db_columns = table_columns S;
          columns_to_use = filter (\<lambda>col. col \<in> set db_columns) (columns prepared_df);
          filtered_df = select_columns columns_to_use prepared_df
      in case to_sql S d filtered_df of
           (Some e, d1) \<Rightarrow> (results\<lparr>errors := errors results @ [exc_msg e]\<rparr>, rollback d1)
         | (None, d1) \<Rightarrow>
             (let last_id = last_insert_rowid d1;
                  first_id = last_id - int (length (rows filtered_df)) + 1;
                  results1 = results\<lparr>entries_added := length (rows filtered_df)\<rparr>
              in if ''type'' \<notin> set (columns df)
                 then (results1\<lparr>errors := errors results1 @ [exc_msg (KeyError ''type'')]\<rparr>,
                       rollback d1)
                 else
                   (case loader_billing_loop S (columns df) case_id first_id d1 0
                           (billing_rows_from 0 (rows df)) of
                      (Some e, d2, n) \<Rightarrow>
                        (results1\<lparr>errors := errors results1 @ [exc_msg e]\<rparr>, rollback d2)
                    | (None, d2, billing_count) \<Rightarrow>
                        (results1\<lparr>billing_entries_added := billing_count, success := True\<rparr>,
                         commit d2))))"

datatype error_info = Messages "string list" | Report validation

record import_results =
  ir_success :: bool
  ir_message :: string
  ir_entries_added :: nat
  ir_errors :: error_info
  ir_billing_entries_added :: "nat option"

definition import_results_init :: import_results where
  "import_results_init =
     \<lparr>ir_success = False, ir_message = [], ir_entries_added = 0, ir_errors = Messages [],
      ir_billing_entries_added = None\<rparr>"

definition import_error :: "import_results \<Rightarrow> exc \<Rightarrow> import_results" where
  "import_error results e =
     results\<lparr>ir_message := ''Error importing data: '' @ exc_msg e,
             ir_errors := (case ir_errors results of
                             Messages ms \<Rightarrow> Messages (ms @ [exc_msg e])
                           | other \<Rightarrow> other)\<rparr>"

definition load_excel_to_db ::
  "env \<Rightarrow> pylib \<Rightarrow> store \<Rightarrow> db \<Rightarrow> string \<Rightarrow> string \<Rightarrow> int
     \<Rightarrow> import_results \<times> db \<times> event list" where
  "load_excel_to_db E L S d file_path db_path case_id =
     (let results = import_results_init in
      case load_data_to_dataframe E file_path of
        (Inl e, trace) \<Rightarrow> (import_error results e, d, trace)
      | (Inr df, trace) \<Rightarrow>
          (case validate_case_file_data L df of
             Inl e \<Rightarrow> (import_error results e, d, trace)
           | Inr validation \<Rightarrow>
               if \<not> valid validation
               then (results\<lparr>ir_message := ''Data validation failed'',
                             ir_errors := Report validation\<rparr>, d, trace)
               else
                 (let import_out = load_case_file_to_db L S d df case_id;
                      import_results = fst import_out;
                      results1 = results\<lparr>ir_success := success import_results,
                                        ir_entries_added := entries_added import_results,
                                        ir_billing_entries_added :=
                                          Some (billing_entries_added import_results),
                                        ir_errors := Messages (errors import_results)\<rparr>
                  in ((if ir_success results1
                       then results1\<lparr>ir_message := ''Successfully imported ''
                                        @ str_nat L (ir_entries_added results1) @ '' entries''\<rparr>
                       else results1),
                      snd import_out, trace @ [Connect db_path, Close]))))"

section \<open>The server's own import path (app.py)\<close>

datatype invalid_entry = InvalidEntry (ie_row: nat) (ie_issue: string)

record app_validation =
  av_valid :: bool
  av_missing_columns :: "string list"
  av_invalid_entries :: "invalid_entry list"

fun app_check_columns :: "string list \<Rightarrow> string list \<Rightarrow> app_validation \<Rightarrow> app_validation" where
  "app_check_columns df_columns [] v = v"
| "app_check_columns df_columns (col # cols) v =
     app_check_columns df_columns cols
       (if col \<notin> set df_columns
        then v\<lparr>av_valid := False, av_missing_columns := av_missing_columns v @ [col]\<rparr>
        else v)"

fun app_check_types :: "pylib \<Rightarrow> nat \<Rightarrow> row list \<Rightarrow> app_validation \<Rightarrow> app_validation" where
  "app_check_types L i [] v = v"
| "app_check_types L i (r # rs) v =
     app_check_types L (Suc i) rs
       (let entry_type = cell_at r ''type'' in
        if isna entry_type \<or> entry_type \<notin> Str ` set VALID_ENTRY_TYPES
        then v\<lparr>av_valid := False,
               av_invalid_entries := av_invalid_entries v
                 @ [InvalidEntry (i + 1) (''Invalid entry type: '' @ py_str L entry_type)]\<rparr>
        else v)"

definition app_validate_case_file_data :: "pylib \<Rightarrow> dataframe \<Rightarrow> app_validation" where
  "app_validate_case_file_data L df =
     (let v0 = app_check_columns (columns df) required_columns
                 \<lparr>av_valid = True, av_missing_columns = [], av_invalid_entries = []\<rparr>
      in if \<not> av_valid v0 then v0 else app_check_types L 0 (rows df) v0)"

text \<open>The category of \<open>create_billing_entry\<close>.\<close>

definition app_billing_category :: "cell \<Rightarrow> exc + cell" where
  "app_billing_category title =
     (case has_colon title of
        Inl e \<Rightarrow> Inl e
      | Inr True \<Rightarrow> Inr (Str (strip (after_colon (case title of Str s \<Rightarrow> s | _ \<Rightarrow> []))))
      | Inr False \<Rightarrow> Inr title)"

definition format_timestamp :: "pylib \<Rightarrow> cell \<Rightarrow> cell" where
  "format_timestamp L v = (case v of Ts t \<Rightarrow> Str (strftime L t) | _ \<Rightarrow> v)"

definition create_billing_entry ::
  "pylib \<Rightarrow> store \<Rightarrow> string list \<Rightarrow> db \<Rightarrow> int \<Rightarrow> int \<Rightarrow> row \<Rightarrow> exc + db" where
  "create_billing_entry L S cols d case_id entry_id r =
     (case row_item cols r ''title'' of
        Inl e \<Rightarrow> Inl e
      | Inr title \<Rightarrow>
      (case app_billing_category title of
        Inl e \<Rightarrow> Inl e
      | Inr billing_category \<Rightarrow>
      (case row_item cols r ''billing_start'' of
        Inl e \<Rightarrow> Inl e
      | Inr billing_start \<Rightarrow>
      (case row_item cols r ''billing_stop'' of
        Inl e \<Rightarrow> Inl e
      | Inr billing_stop \<Rightarrow>
      (case row_item cols r ''billing_hrs'' of
        Inl e \<Rightarrow> Inl e
      | Inr billing_hrs \<Rightarrow>
      (case row_item cols r ''content'' of
        Inl e \<Rightarrow> Inl e
      | Inr content \<Rightarrow>
          insert_billing S d
            \<lparr>be_case_id = case_id, be_entry_id = entry_id,
             be_category = cell_text billing_category,
             be_start = format_timestamp L billing_start,
             be_stop = format_timestamp L billing_stop,
             be_hours = billing_hrs, be_description = content\<rparr>))))))"

text \<open>
  The loop of \<open>insert_data_to_db\<close>: what it raised (if anything), the connection, and
  \<open>entries_added\<close>.
\<close>

fun insert_rows ::
  "pylib \<Rightarrow> store \<Rightarrow> string list \<Rightarrow> int \<Rightarrow> db \<Rightarrow> nat \<Rightarrow> row list \<Rightarrow> exc option \<times> db \<times> nat" where
  "insert_rows L S df_columns case_id d n [] = (None, d, n)"
| "insert_rows L S df_columns case_id d n (r # rs) =
     (case insert_entry S d (map (\<lambda>col. (col, format_timestamp L (cell_at r col))) df_columns) of
        Inl e \<Rightarrow> (Some e, d, n)
      | Inr d1 \<Rightarrow>
          (let entry_id = last_insert_rowid d1 in
           case row_item df_columns r ''type'' of
             Inl e \<Rightarrow> (Some e, d1, Suc n)
           | Inr entry_type \<Rightarrow>
               if entry_type = Str ''billing-type'' then
                 (case create_billing_entry L S df_columns d1 case_id entry_id r of
                    Inl e \<Rightarrow> (Some e, d1, Suc n)
                  | Inr d2 \<Rightarrow> insert_rows L S df_columns case_id d2 (Suc n) rs)
               else insert_rows L S df_columns case_id d1 (Suc n) rs))"

definition insert_data_to_db ::
  "pylib \<Rightarrow> store \<Rightarrow> db \<Rightarrow> dataframe \<Rightarrow> int \<Rightarrow> (exc + nat) \<times> db" where
  "insert_data_to_db L S d df case_id =
     (let table_cols = table_columns S;
          df_columns = filter (\<lambda>col. col \<in> set table_cols) (columns df);
          filtered_df = select_columns df_columns df
      in case insert_rows L S df_columns case_id d 0 (rows filtered_df) of
           (None, d', entries) \<Rightarrow> (Inr entries, commit d')
         | (Some e, d', entries) \<Rightarrow> (Inl e, rollback d'))"

datatype app_error_info = AppMessages "string list" | AppReport app_validation

record app_results =
  ar_success :: bool
  ar_message :: string
  ar_entries_added :: nat
  ar_errors :: app_error_info

definition app_results_init :: app_results where
  "app_results_init =
     \<lparr>ar_success = False, ar_message = [], ar_entries_added = 0, ar_errors = AppMessages []\<rparr>"

definition app_import_error :: "app_results \<Rightarrow> exc \<Rightarrow> app_results" where
  "app_import_error results e =
     results\<lparr>ar_message := ''Error importing data: '' @ exc_msg e,
             ar_errors := (case ar_errors results of
                             AppMessages ms \<Rightarrow> AppMessages (ms @ [exc_msg e])
                           | other \<Rightarrow> other)\<rparr>"

definition app_load_excel_to_db ::
  "env \<Rightarrow> pylib \<Rightarrow> store \<Rightarrow> db \<Rightarrow> string \<Rightarrow> string \<Rightarrow> int
     \<Rightarrow> app_results \<times> db \<times> event list" where
  "app_load_excel_to_db E L S d file_path db_path case_id =
     (let results = app_results_init;
          file_ext = snd (splitext (lower file_path))
      in if file_ext \<notin> set [''.xlsx'', ''.xls'', ''.xlsm''] \<and> file_ext \<noteq> ''.csv''
         then (results\<lparr>ar_message := ''Unsupported file type: '' @ file_ext\<rparr>, d, [])
         else
           (let loaded = (if file_ext \<in> set [''.xlsx'', ''.xls'', ''.xlsm'']
                          then (read_excel E file_path, [ReadExcel file_path])
                          else (read_csv E file_path (CHR 0x09), [ReadCsv file_path (CHR 0x09)]))
            in case fst loaded of
                 Inl e \<Rightarrow> (app_import_error results e, d, snd loaded)
               | Inr df \<Rightarrow>
                   (let validation = app_validate_case_file_data L df in
                    if \<not> av_valid validation
                    then (results\<lparr>ar_message := ''Data validation failed'',
                                  ar_errors := AppReport validation\<rparr>, d, snd loaded)
                    else
                      (let prepared_df = prepare_data_for_db L df case_id in
                       case insert_data_to_db L S d prepared_df case_id of
                         (Inl e, d') \<Rightarrow>
                           (app_import_error results e, d', snd loaded @ [Connect db_path])
                       | (Inr entries, d') \<Rightarrow>
                           (results\<lparr>ar_success := True,
                                    ar_message := ''Successfully imported '' @ str_nat L entries
                                      @ '' entries'',
                                    ar_entries_added := entries\<rparr>,
                            d', snd loaded @ [Connect db_path, Close])))))"

section \<open>Concrete inputs\<close>

text \<open>
  Two libraries. In \<open>strict_lib\<close> every parse fails. \<open>csv_lib\<close> parses the three
  texts that the tables below use, as Python and pandas do: the date
  \<open>01/15/2024 09:00 AM\<close> and the times \<open>2024-01-15 09:00:00\<close> and
  \<open>2024-01-15 10:00:00\<close>. Timestamps of 15 January 2024: 09:00 is 1705309200, 10:00
  is 1705312800. Both libraries compute with floats exactly, which is what floats do on the
  values used here (an hour is \<open>1.0\<close>).
\<close>

definition strict_lib :: pylib where
  "strict_lib =
     \<lparr>strptime = (\<lambda>s. Inl (ValueError ''time data does not match format'')),
      to_datetime = (\<lambda>c. Inl (ValueError ''Unknown datetime string format'')),
      to_datetime_coerce = (\<lambda>column c. None),
      float_of_string = (\<lambda>s. Inl (ValueError ''could not convert string to float'')),
      hours_of_seconds = (\<lambda>s. s / 3600),
      exceeds_tolerance = (\<lambda>d h. \<bar>d - h\<bar> > 1 / 100),
      str_num = (\<lambda>x. ''0.0''),
      str_ts = (\<lambda>t. ''1970-01-01 00:00:00''),
      str_nat = (\<lambda>n. ''0''),
      strftime = (\<lambda>t. ''1970-01-01 00:00:00'')\<rparr>"

definition parse_text :: "cell \<Rightarrow> timestamp option" where
  "parse_text c =
     (if c = Str ''01/15/2024 09:00 AM'' then Some 1705309200
      else if c = Str ''2024-01-15 09:00:00'' then Some 1705309200
      else if c = Str ''2024-01-15 10:00:00'' then Some 1705312800
      else None)"

definition csv_lib :: pylib where
  "csv_lib =
     \<lparr>strptime = (\<lambda>s. if s = ''01/15/2024 09:00 AM'' then Inr 1705309200
                       else Inl (ValueError ''time data does not match format'')),
      to_datetime = (\<lambda>c. case parse_text c of
                             Some t \<Rightarrow> Inr (Some t)
                           | None \<Rightarrow> Inl (ValueError ''Unknown datetime string format'')),
      to_datetime_coerce = (\<lambda>column c. parse_text c),
      float_of_string = (\<lambda>s. Inl (ValueError ''could not convert string to float'')),
      hours_of_seconds = (\<lambda>s. s / 3600),
      exceeds_tolerance = (\<lambda>d h. \<bar>d - h\<bar> > 1 / 100),
      str_num = (\<lambda>x. ''0.0''),
      str_ts = (\<lambda>t. if t = 1705312800 then ''2024-01-15 10:00:00''
                     else ''2024-01-15 09:00:00''),
      str_nat = (\<lambda>n. ''1''),
      strftime = (\<lambda>t. if t = 1705312800 then ''2024-01-15 10:00:00''
                       else ''2024-01-15 09:00:00'')\<rparr>"

definition source_columns :: "string list" where
  "source_columns = required_columns @ [''billing-start'', ''billing-stop'', ''billing-hrs'']"

text \<open>
  Tables as a spreadsheet gives them, with timestamps in the date cells.
  A billing row without a date whose start (10:00) is after its stop (09:00):
\<close>

definition undated_reversed_table :: dataframe where
  "undated_reversed_table =
     \<lparr>columns = source_columns,
      rows = [[(''type'', Str ''billing-type''), (''title'', Str ''Call: Phone Call''),
               (''billing-start'', Ts 1705312800), (''billing-stop'', Ts 1705309200)]]\<rparr>"

text \<open>A billing row without a date, one hour long, with half an hour billed:\<close>

definition undated_wrong_hours_table :: dataframe where
  "undated_wrong_hours_table =
     \<lparr>columns = source_columns,
      rows = [[(''type'', Str ''billing-type''), (''title'', Str ''Call: Phone Call''),
               (''billing-start'', Ts 1705309200), (''billing-stop'', Ts 1705312800),
               (''billing-hrs'', Num (1 / 2))]]\<rparr>"

definition two_bad_types_table :: dataframe where
  "two_bad_types_table =
     \<lparr>columns = source_columns,
      rows = [[(''type'', Str ''memo-type''), (''date'', NaT)],
              [(''type'', Str ''email-type''), (''date'', Ts 1705309200)],
              [(''date'', NaT), (''title'', Str ''untyped'')]]\<rparr>"

definition clean_table :: dataframe where
  "clean_table =
     \<lparr>columns = source_columns,
      rows = [[(''type'', Str ''email-type''), (''date'', Ts 1705309200), (''title'', Str ''Hello''),
               (''billing-start'', NaT), (''billing-stop'', NaT)],
              [(''type'', Str ''billing-type''), (''date'', Ts 1705309200),
               (''title'', Str ''Call: Phone Call''), (''content'', Str ''Call with client''),
               (''billing-start'', Ts 1705309200), (''billing-stop'', Ts 1705312800),
               (''billing-hrs'', Num 1)]]\<rparr>"

definition headless_table :: dataframe where
  "headless_table =
     \<lparr>columns = [''type'', ''date'', ''subject''],
      rows = [[(''type'', Str ''memo-type''), (''date'', Str ''yesterday'')]]\<rparr>"

text \<open>A note and a billing row whose title cell is empty:\<close>

definition nan_title_table :: dataframe where
  "nan_title_table =
     \<lparr>columns = source_columns,
      rows = [[(''type'', Str ''case-note-type''), (''date'', Ts 1705309200),
               (''title'', Str ''Intake''), (''billing-start'', NaT), (''billing-stop'', NaT)],
              [(''type'', Str ''billing-type''), (''date'', Ts 1705309200),
               (''content'', Str ''Call with client''),
               (''billing-start'', Ts 1705309200), (''billing-stop'', Ts 1705312800),
               (''billing-hrs'', Num 1)]]\<rparr>"


text \<open>
  Tables as a text file gives them, with texts in the date cells. One billing row in
  order; the same row under the title \<open>Lunch\<close>; and three billing rows of a file that
  brings its own \<open>entry_id\<close> column, with the ids 11, 10 and 12.
\<close>

definition csv_billing_row :: "string \<Rightarrow> string \<Rightarrow> row" where
  "csv_billing_row title content =
     [(''type'', Str ''billing-type''), (''date'', Str ''01/15/2024 09:00 AM''),
      (''title'', Str title), (''content'', Str content),
      (''billing-start'', Str ''2024-01-15 09:00:00''),
      (''billing-stop'', Str ''2024-01-15 10:00:00''), (''billing-hrs'', Num 1)]"

definition csv_table :: dataframe where
  "csv_table =
     \<lparr>columns = source_columns,
      rows = [csv_billing_row ''Call: Phone Call'' ''Call with client'']\<rparr>"

definition lunch_table :: dataframe where
  "lunch_table =
     \<lparr>columns = source_columns, rows = [csv_billing_row ''Lunch'' ''Lunch with client'']\<rparr>"

definition reimport_table :: dataframe where
  "reimport_table =
     \<lparr>columns = source_columns @ [''entry_id''],
      rows = [(''entry_id'', Num 11) # csv_billing_row ''Call: Phone Call'' ''first'',
              (''entry_id'', Num 10) # csv_billing_row ''Call: Phone Call'' ''second'',
              (''entry_id'', Num 12) # csv_billing_row ''Call: Phone Call'' ''third'']\<rparr>"

text \<open>
  A store that behaves as \<open>sqlite3\<close> does on the cells of the model. A statement of the
  repository binds an empty \<open>NA\<close> cell (as \<open>NULL\<close>), a text and a number; it has no
  adapter for a \<open>pd.Timestamp\<close> or for \<open>NaT\<close>. \<open>to_sql\<close> converts the three timestamp
  columns of the mapped table itself and binds the other cells in the same way. The columns
  are those that \<open>db_health_check\<close> expects of \<open>case_file_entries\<close>; there is no other
  constraint.
\<close>

definition sqlite_binds :: "cell \<Rightarrow> bool" where
  "sqlite_binds c = (case c of Ts t \<Rightarrow> False | NaT \<Rightarrow> False | _ \<Rightarrow> True)"

definition sqlite_store :: "bool \<Rightarrow> store" where
  "sqlite_store autocommit =
     \<lparr>table_columns =
        [''entry_id'', ''case_id'', ''type'', ''date'', ''title'', ''from_party'', ''to_party'',
         ''cc_party'', ''content'', ''attachments'', ''synopsis'', ''comments'',
         ''billing_start'', ''billing_stop'', ''billing_hrs''],
      to_sql_accepted =
        (\<lambda>t r. filter (\<lambda>kv. fst kv \<notin> set date_columns \<and> \<not> sqlite_binds (snd kv)) r = []),
      entry_accepted = (\<lambda>t r. filter (\<lambda>kv. \<not> sqlite_binds (snd kv)) r = []),
      billing_accepted =
        (\<lambda>t b. sqlite_binds (be_start b) \<and> sqlite_binds (be_stop b)
               \<and> sqlite_binds (be_hours b) \<and> sqlite_binds (be_description b)),
      to_sql_commits = autocommit\<rparr>"

definition empty_db :: db where
  "empty_db =
     \<lparr>committed = \<lparr>case_file_entries = [], billing_entries = []\<rparr>,
      working = \<lparr>case_file_entries = [], billing_entries = []\<rparr>,
      last_insert_rowid = 0\<rparr>"

text \<open>Readers that give the same table for every path.\<close>

definition fixed_env :: "dataframe \<Rightarrow> env" where
  "fixed_env df = \<lparr>read_excel = (\<lambda>path. Inr df), read_csv = (\<lambda>path delimiter. Inr df)\<rparr>"

text \<open>The positions of the billing rows of a table, for stating what an import links.\<close>

definition billing_positions :: "row list \<Rightarrow> nat list" where
  "billing_positions rs =
     filter (\<lambda>i. cell_at (rs ! i) ''type'' = Str ''billing-type'') [0..<length rs]"

text \<open>The columns that the row mapper neither renames nor converts.\<close>

definition plain_columns :: "string list" where
  "plain_columns =
     [''type'', ''title'', ''content'', ''attachments'', ''synopsis'', ''comments'']"


section \<open>Properties of the validator\<close>

lemma check_columns_acc:
  "check_columns dc cs v =
     (if filter (\<lambda>c. c \<notin> set dc) cs = [] then v
      else v\<lparr>valid := False,
             missing_columns := missing_columns v @ filter (\<lambda>c. c \<notin> set dc) cs\<rparr>)"
  by (induction cs arbitrary: v) auto

lemma check_types_rows:
  "it_row ` set (check_types L k cs) =
     {i + k + 2 | i. i < length cs \<and> (cs ! i = NA \<or> cs ! i \<notin> Str ` set VALID_ENTRY_TYPES)}"
proof (induction cs arbitrary: k)
  case Nil
  then show ?case by simp
next
  case (Cons c cs)
  have split: "{i + k + 2 | i. i < length (c # cs) \<and>
                 ((c # cs) ! i = NA \<or> (c # cs) ! i \<notin> Str ` set VALID_ENTRY_TYPES)}
      = (if c = NA \<or> c \<notin> Str ` set VALID_ENTRY_TYPES then {k + 2} else {})
        \<union> {i + Suc k + 2 | i. i < length cs \<and>
                 (cs ! i = NA \<or> cs ! i \<notin> Str ` set VALID_ENTRY_TYPES)}"
    (is "?A = ?B")
  proof (rule set_eqI)
    fix n
    show "n \<in> ?A \<longleftrightarrow> n \<in> ?B"
    proof
      assume "n \<in> ?A"
      then obtain i where i: "n = i + k + 2" "i < length (c # cs)"
        "(c # cs) ! i = NA \<or> (c # cs) ! i \<notin> Str ` set VALID_ENTRY_TYPES" by blast
      show "n \<in> ?B"
      proof (cases i)
        case 0
        with i show ?thesis by auto
      next
        case (Suc j)
        with i have "n = j + Suc k + 2" "j < length cs"
          "cs ! j = NA \<or> cs ! j \<notin> Str ` set VALID_ENTRY_TYPES"
          by auto
        then show ?thesis by blast
      qed
    next
      assume "n \<in> ?B"
      then consider "n = k + 2" "c = NA \<or> c \<notin> Str ` set VALID_ENTRY_TYPES"
        | j where "n = j + Suc k + 2" "j < length cs"
            "cs ! j = NA \<or> cs ! j \<notin> Str ` set VALID_ENTRY_TYPES"
        by (auto split: if_splits)
      then show "n \<in> ?A"
      proof cases
        case 1
        then have "n = 0 + k + 2 \<and> 0 < length (c # cs) \<and>
            ((c # cs) ! 0 = NA \<or> (c # cs) ! 0 \<notin> Str ` set VALID_ENTRY_TYPES)"
          by simp
        then show ?thesis by blast
      next
        case 2
        then have "n = Suc j + k + 2 \<and> Suc j < length (c # cs) \<and>
            ((c # cs) ! Suc j = NA \<or> (c # cs) ! Suc j \<notin> Str ` set VALID_ENTRY_TYPES)"
          by simp
        then show ?thesis by blast
      qed
    qed
  qed
  show ?case
    unfolding split using Cons.IH [of "Suc k"] by (auto simp: isna_def)
qed

lemma validate_present:
  assumes "set required_columns \<subseteq> set (columns df)"
    and "validate_case_file_data L df = Inr v"
  shows "invalid_types v = check_types L 0 (map (\<lambda>r. cell_at r ''type'') (rows df))"
    and "invalid_types v \<noteq> [] \<Longrightarrow> \<not> valid v"
proof -
  have none: "filter (\<lambda>c. c \<notin> set (columns df)) required_columns = []"
    using assms(1) by (auto simp: filter_empty_conv)
  show "invalid_types v = check_types L 0 (map (\<lambda>r. cell_at r ''type'') (rows df))"
    using assms(2) none
    by (auto simp: validate_case_file_data_def check_columns_acc validation_init_def Let_def
             split: if_splits sum.splits)
  show "invalid_types v \<noteq> [] \<Longrightarrow> \<not> valid v"
    using assms(2) none
    by (auto simp: validate_case_file_data_def check_columns_acc validation_init_def Let_def
             split: if_splits sum.splits)
qed

text \<open>
  C6. Whenever the validator returns a report, \<open>valid\<close> is true exactly when the
  missing-columns list, the invalid-type list, the billing-category-error list and the
  date/duration-error list are all empty.
\<close>

theorem valid_iff_no_violation:
  "validate_case_file_data L df = Inr v \<Longrightarrow>
   valid v \<longleftrightarrow>
     (missing_columns v = [] \<and> invalid_types v = [] \<and>
      billing_category_errors v = [] \<and> date_format_errors v = [])"
  by (auto simp: validate_case_file_data_def check_columns_acc validation_init_def Let_def
           split: if_splits sum.splits)

lemma validate_two_bad_types_table:
  "validate_case_file_data L two_bad_types_table =
     Inr \<lparr>valid = False, missing_columns = [],
          invalid_types = [InvalidType 2 ''memo-type'', InvalidType 4 ''NA''],
          date_format_errors = [], billing_category_errors = [],
          sample_errors = ([InvalidType 2 ''memo-type'', InvalidType 4 ''NA''], [], [])\<rparr>"
  by code_simp

lemma validate_clean_table:
  "validate_case_file_data strict_lib clean_table =
     Inr \<lparr>valid = True, missing_columns = [], invalid_types = [], date_format_errors = [],
          billing_category_errors = [], sample_errors = ([], [], [])\<rparr>"
  by code_simp

theorem valid_iff_no_violation_witness:
  "validate_case_file_data strict_lib clean_table =
     Inr \<lparr>valid = True, missing_columns = [], invalid_types = [], date_format_errors = [],
          billing_category_errors = [], sample_errors = ([], [], [])\<rparr>
   \<and> validate_case_file_data strict_lib two_bad_types_table =
     Inr \<lparr>valid = False, missing_columns = [],
          invalid_types = [InvalidType 2 ''memo-type'', InvalidType 4 ''NA''],
          date_format_errors = [], billing_category_errors = [],
          sample_errors = ([InvalidType 2 ''memo-type'', InvalidType 4 ''NA''], [], [])\<rparr>"
proof -
  have clean: "validate_case_file_data strict_lib clean_table =
     Inr \<lparr>valid = True, missing_columns = [], invalid_types = [], date_format_errors = [],
          billing_category_errors = [], sample_errors = ([], [], [])\<rparr>"
    by (rule validate_clean_table)
  have bad: "validate_case_file_data strict_lib two_bad_types_table =
     Inr \<lparr>valid = False, missing_columns = [],
          invalid_types = [InvalidType 2 ''memo-type'', InvalidType 4 ''NA''],
          date_format_errors = [], billing_category_errors = [],
          sample_errors = ([InvalidType 2 ''memo-type'', InvalidType 4 ''NA''], [], [])\<rparr>"
    by (rule validate_two_bad_types_table)
  show ?thesis
    using clean bad valid_iff_no_violation [OF clean] valid_iff_no_violation [OF bad] by simp
qed

text \<open>
  C7. A table that lacks one of the ten required columns gets a report with \<open>valid\<close>
  false and the missing names listed, and no other check runs: the invalid-type,
  billing-category and date-error lists of the report are empty.
\<close>

theorem missing_columns_short_circuit:
  assumes "\<exists>c \<in> {''type'', ''date'', ''title'', ''from'', ''to'', ''cc'', ''content'',
                  ''attachments'', ''synopsis'', ''comments''}. c \<notin> set (columns df)"
  shows "validate_case_file_data L df =
     Inr \<lparr>valid = False,
          missing_columns = filter (\<lambda>c. c \<notin> set (columns df))
             [''type'', ''date'', ''title'', ''from'', ''to'', ''cc'', ''content'',
              ''attachments'', ''synopsis'', ''comments''],
          invalid_types = [], date_format_errors = [], billing_category_errors = [],
          sample_errors = ([], [], [])\<rparr>
     \<and> filter (\<lambda>c. c \<notin> set (columns df))
             [''type'', ''date'', ''title'', ''from'', ''to'', ''cc'', ''content'',
              ''attachments'', ''synopsis'', ''comments''] \<noteq> []"
proof -
  have some: "filter (\<lambda>c. c \<notin> set (columns df)) required_columns \<noteq> []"
    using assms unfolding required_columns_def filter_empty_conv by auto
  then show ?thesis
    by (simp add: validate_case_file_data_def check_columns_acc validation_init_def Let_def
                  required_columns_def)
qed

theorem missing_columns_short_circuit_witness:
  "(\<exists>c \<in> {''type'', ''date'', ''title'', ''from'', ''to'', ''cc'', ''content'',
            ''attachments'', ''synopsis'', ''comments''}. c \<notin> set (columns headless_table))
   \<and> validate_case_file_data strict_lib headless_table =
     Inr \<lparr>valid = False,
          missing_columns = [''title'', ''from'', ''to'', ''cc'', ''content'',
                             ''attachments'', ''synopsis'', ''comments''],
          invalid_types = [], date_format_errors = [], billing_category_errors = [],
          sample_errors = ([], [], [])\<rparr>"
proof -
  have h: "\<exists>c \<in> {''type'', ''date'', ''title'', ''from'', ''to'', ''cc'', ''content'',
            ''attachments'', ''synopsis'', ''comments''}. c \<notin> set (columns headless_table)"
    by (simp add: headless_table_def)
  show ?thesis
    using h missing_columns_short_circuit [OF h, of strict_lib]
    by (simp add: headless_table_def)
qed

text \<open>
  The type check of validation.py. With the required columns present, a row at position
  \<open>i\<close> whose type cell is empty or is not one of the seven tags is in the invalid-type list
  of the report under the row number \<open>i + 2\<close>, and the report is not valid; a row whose type
  is one of the seven tags is not in that list.
\<close>

lemma invalid_type_rows_recorded:
  assumes "set required_columns \<subseteq> set (columns df)"
    and "validate_case_file_data L df = Inr v"
    and "i < length (rows df)"
  shows "(cell_at (rows df ! i) ''type'' = NA \<or>
          cell_at (rows df ! i) ''type'' \<notin>
            {Str ''email-type'', Str ''doc-type'', Str ''meeting-type'', Str ''phone-call-type'',
             Str ''case-note-type'', Str ''billing-type'', Str ''other-type''}
          \<longrightarrow> i + 2 \<in> it_row ` set (invalid_types v) \<and> \<not> valid v)
       \<and> (cell_at (rows df ! i) ''type'' \<in>
            {Str ''email-type'', Str ''doc-type'', Str ''meeting-type'', Str ''phone-call-type'',
             Str ''case-note-type'', Str ''billing-type'', Str ''other-type''}
          \<longrightarrow> i + 2 \<notin> it_row ` set (invalid_types v))"
proof -
  let ?cs = "map (\<lambda>r. cell_at r ''type'') (rows df)"
  have tags: "Str ` set VALID_ENTRY_TYPES =
      {Str ''email-type'', Str ''doc-type'', Str ''meeting-type'', Str ''phone-call-type'',
       Str ''case-note-type'', Str ''billing-type'', Str ''other-type''}"
    by (simp add: VALID_ENTRY_TYPES_def)
  have rows_eq: "it_row ` set (invalid_types v) =
      {j + 2 | j. j < length (rows df) \<and>
         (?cs ! j = NA \<or> ?cs ! j \<notin> Str ` set VALID_ENTRY_TYPES)}"
    using check_types_rows [of L 0 ?cs] validate_present(1) [OF assms(1,2)] by simp
  have at_i: "?cs ! i = cell_at (rows df ! i) ''type''"
    using assms(3) by simp
  have mem: "i + 2 \<in> it_row ` set (invalid_types v) \<longleftrightarrow>
      (?cs ! i = NA \<or> ?cs ! i \<notin> Str ` set VALID_ENTRY_TYPES)"
    unfolding rows_eq using assms(3) by auto
  have inval: "i + 2 \<in> it_row ` set (invalid_types v) \<Longrightarrow> \<not> valid v"
    using validate_present(2) [OF assms(1,2)] by (cases "invalid_types v") auto
  show ?thesis
    using mem inval unfolding at_i tags by auto
qed

lemma invalid_type_rows_recorded_example:
  "set required_columns \<subseteq> set (columns two_bad_types_table)
   \<and> validate_case_file_data strict_lib two_bad_types_table =
       Inr \<lparr>valid = False, missing_columns = [],
            invalid_types = [InvalidType 2 ''memo-type'', InvalidType 4 ''NA''],
            date_format_errors = [], billing_category_errors = [],
            sample_errors = ([InvalidType 2 ''memo-type'', InvalidType 4 ''NA''], [], [])\<rparr>
   \<and> (1::nat) < length (rows two_bad_types_table)
   \<and> cell_at (rows two_bad_types_table ! 1) ''type'' = Str ''email-type''
   \<and> (1::nat) + 2 \<notin> it_row ` set [InvalidType 2 ''memo-type'', InvalidType 4 ''NA'']"
proof -
  have h1: "set required_columns \<subseteq> set (columns two_bad_types_table)"
    by (auto simp: two_bad_types_table_def source_columns_def)
  have h2: "validate_case_file_data strict_lib two_bad_types_table =
       Inr \<lparr>valid = False, missing_columns = [],
            invalid_types = [InvalidType 2 ''memo-type'', InvalidType 4 ''NA''],
            date_format_errors = [], billing_category_errors = [],
            sample_errors = ([InvalidType 2 ''memo-type'', InvalidType 4 ''NA''], [], [])\<rparr>"
    by (rule validate_two_bad_types_table)
  have h3: "(1::nat) < length (rows two_bad_types_table)"
    by (simp add: two_bad_types_table_def)
  have c: "cell_at (rows two_bad_types_table ! 1) ''type'' = Str ''email-type''"
    by (simp add: two_bad_types_table_def cell_at_def)
  show ?thesis
    using h1 h2 h3 c invalid_type_rows_recorded [OF h1 h2 h3] by simp
qed

text \<open>
  C2. The claim is that every billing row with both billing timestamps present and a
  start that is not before its stop gets a \<open>billing_sequence\<close> error, whatever its date
  cell. The date loop leaves a row with an empty date cell before it looks at the billing
  cells: here the start is an hour after the stop, and the report is valid and holds no
  error.
\<close>

theorem undated_reversed_billing_accepted:
  "validate_case_file_data L undated_reversed_table =
     Inr \<lparr>valid = True, missing_columns = [], invalid_types = [], date_format_errors = [],
          billing_category_errors = [], sample_errors = ([], [], [])\<rparr>"
  by code_simp

text \<open>
  C3. The claim is that a billing row with start, stop and hours present gets a
  \<open>billing_duration\<close> error exactly when the hours are off by more than 0.01. For a row
  with an empty date cell the loop never compares them: one hour worked, half an hour
  billed, and the report is valid and holds no error.
\<close>

theorem undated_wrong_hours_accepted:
  "validate_case_file_data L undated_wrong_hours_table =
     Inr \<lparr>valid = True, missing_columns = [], invalid_types = [], date_format_errors = [],
          billing_category_errors = [], sample_errors = ([], [], [])\<rparr>"
  by code_simp

text \<open>
  Both come from the first statement of the loop body: a row with an empty date cell is
  left at once, whatever its billing cells hold.
\<close>

lemma undated_row_unchecked:
  "isna (cell_at r ''date'') \<Longrightarrow> date_check_row L cols idx r = Inr []"
  by (simp add: date_check_row_def date_row_body_def)

text \<open>
  With a timestamp in the date cell both checks are made: the sequence error for a start
  that is not before the stop, and the duration error where the float test of the source,
  \<open>abs(duration - hours) > 0.01\<close>, holds of the float duration.
\<close>

lemma dated_billing_row_checked:
  assumes "cell_at r ''date'' = Ts d" and "cell_at r ''type'' = Str ''billing-type''"
    and "row_get cols r ''billing-start'' = Ts a" and "row_get cols r ''billing-stop'' = Ts b"
    and "row_get cols r ''billing-hrs'' = Num h"
  shows "date_check_row L cols idx r =
     Inr ((if a \<ge> b then [BillingSequence (idx + 2) (str_ts L a) (str_ts L b)] else [])
          @ (if exceeds_tolerance L (hours_of_seconds L (b - a)) h
             then [BillingDuration (idx + 2) (hours_of_seconds L (b - a)) (Num h)] else []))"
  using assms
  by (simp add: date_check_row_def date_row_body_def isna_def coerce_ts_def ts_ge_def
                duration_hours_def py_float_def py_str_def Let_def)


section \<open>Properties of the category derivations\<close>

lemma after_colon_split:
  "CHR '':'' \<notin> set label \<Longrightarrow> after_colon (label @ CHR '':'' # rest) = rest"
  by (induction label) (auto simp: after_colon_def)

text \<open>
  For a title \<open>label:rest\<close> (no colon in \<open>label\<close>) the validator and both import paths
  derive the same category, \<open>rest\<close> stripped of surrounding white space, and the validator
  looks it up in the vocabulary. For a title without a colon both import paths take the
  whole title unchanged, and the validator derives no category and records nothing.
\<close>

lemma category_derivations_agree:
  "(CHR '':'' \<notin> set label \<longrightarrow>
      validation_category (Str (label @ CHR '':'' # rest)) = Inr (Some (strip rest))
    \<and> loader_billing_category (Str (label @ CHR '':'' # rest)) = Inr (Str (strip rest))
    \<and> app_billing_category (Str (label @ CHR '':'' # rest)) = Inr (Str (strip rest)))
   \<and> (CHR '':'' \<notin> set t \<longrightarrow>
      validation_category (Str t) = Inr None
    \<and> loader_billing_category (Str t) = Inr (Str t)
    \<and> app_billing_category (Str t) = Inr (Str t))"
  by (simp add: validation_category_def loader_billing_category_def app_billing_category_def
                has_colon_def isna_def after_colon_split)

lemma category_derivations_agree_example:
  "validation_category (Str ''Client Meeting: Client Meeting'') = Inr (Some ''Client Meeting'')
   \<and> loader_billing_category (Str ''Client Meeting: Client Meeting'') = Inr (Str ''Client Meeting'')
   \<and> app_billing_category (Str ''Client Meeting: Client Meeting'') = Inr (Str ''Client Meeting'')
   \<and> validation_category (Str ''Travel Time'') = Inr None
   \<and> loader_billing_category (Str ''Travel Time'') = Inr (Str ''Travel Time'')
   \<and> app_billing_category (Str ''Travel Time'') = Inr (Str ''Travel Time'')"
  by code_simp

lemma colon_row_checked:
  assumes "cell_at r ''type'' = Str ''billing-type''"
    and "cell_at r ''title'' = Str (label @ CHR '':'' # rest)" and "CHR '':'' \<notin> set label"
  shows "category_check_row idx r =
     Inr (if strip rest \<notin> set BILLING_CATEGORIES
          then [CategoryError (idx + 2) (strip rest) (AllowedNote ''General billing categories'')]
          else [])"
  using assms category_derivations_agree [of label rest]
  by (simp add: category_check_row_def is_cpcs_def)

lemma no_colon_row_unchecked:
  assumes "cell_at r ''title'' = Str t" and "CHR '':'' \<notin> set t"
  shows "category_check_row idx r = Inr []"
  using assms category_derivations_agree [of _ _ t]
  by (simp add: category_check_row_def)

text \<open>
  C4. The claim is that the validator and the import derive the same category from every
  title, the whole title where it has no colon. For the title \<open>Lunch\<close> both import paths
  derive \<open>Lunch\<close>, which is not in the vocabulary, and the validator derives nothing: the
  table with that billing row is valid, its import succeeds, and \<open>Lunch\<close> is the category
  of the committed billing entry.
\<close>

theorem no_colon_title_unchecked:
  "validation_category (Str ''Lunch'') = Inr None
   \<and> loader_billing_category (Str ''Lunch'') = Inr (Str ''Lunch'')
   \<and> app_billing_category (Str ''Lunch'') = Inr (Str ''Lunch'')
   \<and> ''Lunch'' \<notin> set BILLING_CATEGORIES
   \<and> validate_case_file_data csv_lib lunch_table =
       Inr \<lparr>valid = True, missing_columns = [], invalid_types = [], date_format_errors = [],
            billing_category_errors = [], sample_errors = ([], [], [])\<rparr>
   \<and> success (fst (load_case_file_to_db csv_lib (sqlite_store True) empty_db lunch_table 7))
   \<and> map (\<lambda>b. be_category (snd b))
        (billing_entries (committed
          (snd (load_case_file_to_db csv_lib (sqlite_store True) empty_db lunch_table 7))))
       = [''Lunch'']"
  by code_simp


section \<open>Properties of the loader\<close>

text \<open>
  C9, as stated, fails: the path is lower-cased before its extension is looked at, so a file
  whose extension is \<open>.XLSX\<close>, which is none of the four listed, is read as a spreadsheet
  and imported.
\<close>

theorem uppercase_extension_counterexample:
  "snd (splitext ''REPORT.XLSX'') = ''.XLSX''
   \<and> ''.XLSX'' \<notin> {''.xlsx'', ''.xls'', ''.xlsm'', ''.csv''}
   \<and> snd (snd (load_excel_to_db (fixed_env csv_table) csv_lib (sqlite_store True) empty_db
                 ''REPORT.XLSX'' ''case.db'' 7))
       = [ReadExcel ''REPORT.XLSX'', Connect ''case.db'', Close]
   \<and> ir_success (fst (load_excel_to_db (fixed_env csv_table) csv_lib (sqlite_store True)
                 empty_db ''REPORT.XLSX'' ''case.db'' 7))
   \<and> snd (snd (app_load_excel_to_db (fixed_env csv_table) csv_lib (sqlite_store True) empty_db
                 ''REPORT.XLSX'' ''case.db'' 7))
       = [ReadExcel ''REPORT.XLSX'', Connect ''case.db'', Close]
   \<and> ar_success (fst (app_load_excel_to_db (fixed_env csv_table) csv_lib (sqlite_store True)
                 empty_db ''REPORT.XLSX'' ''case.db'' 7))"
  by code_simp

text \<open>
  C9, amended. The extension is that of the lower-cased path. If it is none of \<open>.xlsx\<close>,
  \<open>.xls\<close>, \<open>.xlsm\<close>, \<open>.csv\<close>, both import operations fail with the unsupported-file-type
  message, with no event at all (no read, no connection) and the database untouched. With
  one of the three spreadsheet extensions the first event is the spreadsheet read of the
  path; with \<open>.csv\<close> it is the text read of the path with the tab character as delimiter.
\<close>

theorem extension_routing:
  "(snd (splitext (lower p)) \<notin> {''.xlsx'', ''.xls'', ''.xlsm'', ''.csv''} \<longrightarrow>
      load_excel_to_db E L S d p db_path cid =
        (\<lparr>ir_success = False,
          ir_message = ''Error importing data: Unsupported file type: '' @ p,
          ir_entries_added = 0,
          ir_errors = Messages [''Unsupported file type: '' @ p],
          ir_billing_entries_added = None\<rparr>, d, [])
    \<and> app_load_excel_to_db E L S d p db_path cid =
        (\<lparr>ar_success = False,
          ar_message = ''Unsupported file type: '' @ snd (splitext (lower p)),
          ar_entries_added = 0, ar_errors = AppMessages []\<rparr>, d, []))
   \<and> (snd (splitext (lower p)) \<in> {''.xlsx'', ''.xls'', ''.xlsm''} \<longrightarrow>
      load_data_to_dataframe E p = (read_excel E p, [ReadExcel p])
    \<and> take 1 (snd (snd (load_excel_to_db E L S d p db_path cid))) = [ReadExcel p]
    \<and> take 1 (snd (snd (app_load_excel_to_db E L S d p db_path cid))) = [ReadExcel p])
   \<and> (snd (splitext (lower p)) = ''.csv'' \<longrightarrow>
      load_data_to_dataframe E p = (read_csv E p (CHR 0x09), [ReadCsv p (CHR 0x09)])
    \<and> take 1 (snd (snd (load_excel_to_db E L S d p db_path cid))) = [ReadCsv p (CHR 0x09)]
    \<and> take 1 (snd (snd (app_load_excel_to_db E L S d p db_path cid))) = [ReadCsv p (CHR 0x09)])"
proof (intro conjI impI)
  assume u: "snd (splitext (lower p)) \<notin> {''.xlsx'', ''.xls'', ''.xlsm'', ''.csv''}"
  then have unknown: "identify_file_type p = Unknown"
    by (auto simp: identify_file_type_def Let_def)
  show "load_excel_to_db E L S d p db_path cid =
        (\<lparr>ir_success = False,
          ir_message = ''Error importing data: Unsupported file type: '' @ p,
          ir_entries_added = 0,
          ir_errors = Messages [''Unsupported file type: '' @ p],
          ir_billing_entries_added = None\<rparr>, d, [])"
    by (simp add: load_excel_to_db_def load_data_to_dataframe_def unknown import_error_def
                  import_results_init_def)
  show "app_load_excel_to_db E L S d p db_path cid =
        (\<lparr>ar_success = False,
          ar_message = ''Unsupported file type: '' @ snd (splitext (lower p)),
          ar_entries_added = 0, ar_errors = AppMessages []\<rparr>, d, [])"
    using u by (simp add: app_load_excel_to_db_def app_results_init_def Let_def)
next
  assume x: "snd (splitext (lower p)) \<in> {''.xlsx'', ''.xls'', ''.xlsm''}"
  then have excel: "identify_file_type p = Excel"
    by (auto simp: identify_file_type_def Let_def)
  show "load_data_to_dataframe E p = (read_excel E p, [ReadExcel p])"
    by (simp add: load_data_to_dataframe_def excel)
  show "take 1 (snd (snd (load_excel_to_db E L S d p db_path cid))) = [ReadExcel p]"
    by (simp add: load_excel_to_db_def load_data_to_dataframe_def excel Let_def
             split: sum.splits)
  show "take 1 (snd (snd (app_load_excel_to_db E L S d p db_path cid))) = [ReadExcel p]"
    using x by (auto simp: app_load_excel_to_db_def Let_def split: sum.splits prod.splits)
next
  assume c: "snd (splitext (lower p)) = ''.csv''"
  then have csv: "identify_file_type p = Csv"
    by (simp add: identify_file_type_def Let_def)
  show "load_data_to_dataframe E p = (read_csv E p (CHR 0x09), [ReadCsv p (CHR 0x09)])"
    by (simp add: load_data_to_dataframe_def csv)
  show "take 1 (snd (snd (load_excel_to_db E L S d p db_path cid))) = [ReadCsv p (CHR 0x09)]"
    by (simp add: load_excel_to_db_def load_data_to_dataframe_def csv Let_def
             split: sum.splits)
  show "take 1 (snd (snd (app_load_excel_to_db E L S d p db_path cid))) = [ReadCsv p (CHR 0x09)]"
    using c by (auto simp: app_load_excel_to_db_def Let_def split: sum.splits prod.splits)
qed

theorem extension_routing_witness:
  "snd (splitext (lower ''notes.txt'')) \<notin> {''.xlsx'', ''.xls'', ''.xlsm'', ''.csv''}
   \<and> load_excel_to_db (fixed_env csv_table) csv_lib (sqlite_store True) empty_db
        ''notes.txt'' ''case.db'' 7 =
        (\<lparr>ir_success = False,
          ir_message = ''Error importing data: Unsupported file type: notes.txt'',
          ir_entries_added = 0,
          ir_errors = Messages [''Unsupported file type: notes.txt''],
          ir_billing_entries_added = None\<rparr>, empty_db, [])
   \<and> app_load_excel_to_db (fixed_env csv_table) csv_lib (sqlite_store True) empty_db
        ''notes.txt'' ''case.db'' 7 =
        (\<lparr>ar_success = False, ar_message = ''Unsupported file type: .txt'',
          ar_entries_added = 0, ar_errors = AppMessages []\<rparr>, empty_db, [])
   \<and> snd (splitext (lower ''2024/Q1.xls'')) \<in> {''.xlsx'', ''.xls'', ''.xlsm''}
   \<and> take 1 (snd (snd (load_excel_to_db (fixed_env csv_table) csv_lib (sqlite_store True)
                empty_db ''2024/Q1.xls'' ''case.db'' 7))) = [ReadExcel ''2024/Q1.xls'']
   \<and> snd (splitext (lower ''january.csv'')) = ''.csv''
   \<and> take 1 (snd (snd (load_excel_to_db (fixed_env csv_table) csv_lib (sqlite_store True)
                empty_db ''january.csv'' ''case.db'' 7))) = [ReadCsv ''january.csv'' (CHR 0x09)]"
proof -
  have e1: "snd (splitext (lower ''notes.txt'')) = ''.txt''" by code_simp
  have e2: "snd (splitext (lower ''2024/Q1.xls'')) = ''.xls''" by code_simp
  have e3: "snd (splitext (lower ''january.csv'')) = ''.csv''" by code_simp
  have h1: "snd (splitext (lower ''notes.txt'')) \<notin> {''.xlsx'', ''.xls'', ''.xlsm'', ''.csv''}"
    unfolding e1 by simp
  have h2: "snd (splitext (lower ''2024/Q1.xls'')) \<in> {''.xlsx'', ''.xls'', ''.xlsm''}"
    unfolding e2 by simp
  note r1 = extension_routing [of "''notes.txt''" "fixed_env csv_table" csv_lib
              "sqlite_store True" empty_db "''case.db''" 7]
  note r2 = extension_routing [of "''2024/Q1.xls''" "fixed_env csv_table" csv_lib
              "sqlite_store True" empty_db "''case.db''" 7]
  note r3 = extension_routing [of "''january.csv''" "fixed_env csv_table" csv_lib
              "sqlite_store True" empty_db "''case.db''" 7]
  have a: "load_excel_to_db (fixed_env csv_table) csv_lib (sqlite_store True) empty_db
        ''notes.txt'' ''case.db'' 7 =
        (\<lparr>ir_success = False,
          ir_message = ''Error importing data: Unsupported file type: notes.txt'',
          ir_entries_added = 0,
          ir_errors = Messages [''Unsupported file type: notes.txt''],
          ir_billing_entries_added = None\<rparr>, empty_db, [])"
    using r1 h1 by simp
  have a': "app_load_excel_to_db (fixed_env csv_table) csv_lib (sqlite_store True) empty_db
        ''notes.txt'' ''case.db'' 7 =
        (\<lparr>ar_success = False, ar_message = ''Unsupported file type: .txt'',
          ar_entries_added = 0, ar_errors = AppMessages []\<rparr>, empty_db, [])"
    using r1 h1 e1 by simp
  have b: "take 1 (snd (snd (load_excel_to_db (fixed_env csv_table) csv_lib (sqlite_store True)
                empty_db ''2024/Q1.xls'' ''case.db'' 7))) = [ReadExcel ''2024/Q1.xls'']"
    using r2 h2 by blast
  have c: "take 1 (snd (snd (load_excel_to_db (fixed_env csv_table) csv_lib (sqlite_store True)
                empty_db ''january.csv'' ''case.db'' 7))) = [ReadCsv ''january.csv'' (CHR 0x09)]"
    using r3 e3 by blast
  show ?thesis
    using h1 a a' h2 b e3 c by blast
qed


section \<open>Properties of the import\<close>

lemma store_entry_committed: "store_entry d r = Inr d' \<Longrightarrow> committed d' = committed d"
  by (auto simp: store_entry_def Let_def split: sum.splits option.splits if_splits)

lemma insert_entry_committed: "insert_entry S d r = Inr d' \<Longrightarrow> committed d' = committed d"
  by (auto simp: insert_entry_def split: if_splits dest: store_entry_committed)

lemma to_sql_insert_committed: "to_sql_insert S d r = Inr d' \<Longrightarrow> committed d' = committed d"
  by (auto simp: to_sql_insert_def split: if_splits dest: store_entry_committed)

lemma insert_billing_committed: "insert_billing S d b = Inr d' \<Longrightarrow> committed d' = committed d"
  by (auto simp: insert_billing_def Let_def split: if_splits)

lemma to_sql_rows_committed: "to_sql_rows S d rs = (x, d') \<Longrightarrow> committed d' = committed d"
  by (induction rs arbitrary: d) (auto split: sum.splits dest: to_sql_insert_committed)

lemma loader_billing_row_committed:
  "loader_billing_row S cols cid first d ir = Inr d' \<Longrightarrow> committed d' = committed d"
  by (auto simp: loader_billing_row_def Let_def split: sum.splits dest: insert_billing_committed)

lemma loader_billing_loop_committed:
  "loader_billing_loop S cols cid first d n irs = (x, d', m) \<Longrightarrow> committed d' = committed d"
  by (induction irs arbitrary: d n) (auto split: sum.splits dest: loader_billing_row_committed)

lemma create_billing_entry_committed:
  "create_billing_entry L S cols d cid eid r = Inr d' \<Longrightarrow> committed d' = committed d"
  by (auto simp: create_billing_entry_def split: sum.splits dest: insert_billing_committed)

lemma insert_rows_committed:
  "insert_rows L S cols cid d n rs = (x, d', m) \<Longrightarrow> committed d' = committed d"
proof (induction rs arbitrary: d n)
  case Nil
  then show ?case by simp
next
  case (Cons r rs)
  show ?case
  proof (cases "insert_entry S d (map (\<lambda>col. (col, format_timestamp L (cell_at r col))) cols)")
    case (Inl e)
    with Cons.prems show ?thesis by simp
  next
    case (Inr d1)
    then have c1: "committed d1 = committed d" by (rule insert_entry_committed)
    show ?thesis
    proof (cases "row_item cols r ''type''")
      case (Inl e)
      with Cons.prems Inr c1 show ?thesis by simp
    next
      case t: (Inr entry_type)
      show ?thesis
      proof (cases "entry_type = Str ''billing-type''")
        case False
        with Cons.prems Inr t have "insert_rows L S cols cid d1 (Suc n) rs = (x, d', m)" by simp
        from Cons.IH [OF this] c1 show ?thesis by simp
      next
        case True
        show ?thesis
        proof (cases "create_billing_entry L S cols d1 cid (last_insert_rowid d1) r")
          case (Inl e)
          with Cons.prems Inr t True c1 show ?thesis by simp
        next
          case b: (Inr d2)
          then have c2: "committed d2 = committed d1" by (rule create_billing_entry_committed)
          from Cons.prems Inr t True b have "insert_rows L S cols cid d2 (Suc n) rs = (x, d', m)"
            by simp
          from Cons.IH [OF this] c1 c2 show ?thesis by simp
        qed
      qed
    qed
  qed
qed

text \<open>
  What a failed import leaves behind. In excel_loader.py the connection is rolled back, and
  nothing of the batch is committed unless \<open>to_sql\<close> has committed its rows itself.
\<close>

lemma loader_failure_rolls_back:
  assumes "load_case_file_to_db L S d df cid = (res, d')" and "\<not> success res"
  shows "working d' = committed d'"
    and "\<not> to_sql_commits S \<Longrightarrow> committed d' = committed d"
proof -
  show "working d' = committed d'"
    using assms
    by (auto simp: load_case_file_to_db_def Let_def rollback_def
             split: prod.splits option.splits if_splits)
  show "committed d' = committed d" if "\<not> to_sql_commits S"
    using assms that
    by (auto simp: load_case_file_to_db_def Let_def rollback_def to_sql_def
             split: prod.splits option.splits if_splits
             dest!: to_sql_rows_committed loader_billing_loop_committed)
qed

text \<open>
  In app.py every insert goes through the cursor: an exception leaves the tables as they
  were committed, a return leaves everything committed, and a failed import reports no
  entry.
\<close>

lemma insert_data_to_db_raises:
  assumes "insert_data_to_db L S d df cid = (Inl e, d')"
  shows "working d' = committed d" and "committed d' = committed d"
  using assms
  by (auto simp: insert_data_to_db_def Let_def rollback_def split: prod.splits option.splits
           dest!: insert_rows_committed)

lemma insert_data_to_db_returns:
  assumes "insert_data_to_db L S d df cid = (Inr n, d')"
  shows "committed d' = working d'"
  using assms
  by (auto simp: insert_data_to_db_def Let_def commit_def split: prod.splits option.splits)

lemma app_failure_reports_zero:
  assumes "app_load_excel_to_db E L S d file_path db_path cid = (res, d', trace)"
    and "\<not> ar_success res"
  shows "ar_entries_added res = 0" and "committed d' = committed d"
    and "working d = committed d \<Longrightarrow> working d' = committed d"
  using assms
  by (auto simp: app_load_excel_to_db_def Let_def app_results_init_def app_import_error_def
           split: prod.splits sum.splits if_splits
           dest: insert_data_to_db_raises)

text \<open>
  C1. The claim is that a failed import reports \<open>success = false\<close> with \<open>entries_added\<close>
  0. \<open>load_case_file_to_db\<close> sets \<open>entries_added\<close> right after \<open>to_sql\<close>; when the
  billing loop then fails, the connection is rolled back and the result still counts the
  rows as added. Here it fails once on the empty title of a billing row, and once on the
  billing insert of a table that is in order, whose timestamp \<open>sqlite3\<close> does not bind.
\<close>

theorem failed_import_reports_added_entries:
  "fst (load_case_file_to_db L (sqlite_store autocommit) empty_db nan_title_table 7) =
     \<lparr>success = False, entries_added = 2, billing_entries_added = 0,
      errors = [''argument is not iterable'']\<rparr>
   \<and> fst (load_case_file_to_db L (sqlite_store autocommit) empty_db clean_table 7) =
     \<lparr>success = False, entries_added = 2, billing_entries_added = 0,
      errors = [''INSERT INTO billing_entries failed'']\<rparr>"
  by code_simp

text \<open>
  Both tables pass the validator. What is left of the batch depends on \<open>to_sql\<close>: if it
  commits the rows it has written, as pandas does on an \<open>sqlite3\<close> connection, the rollback
  comes too late for them, and both entries stay.
\<close>

lemma failing_tables_are_valid:
  "validate_case_file_data strict_lib nan_title_table =
     Inr \<lparr>valid = True, missing_columns = [], invalid_types = [], date_format_errors = [],
          billing_category_errors = [], sample_errors = ([], [], [])\<rparr>
   \<and> validate_case_file_data strict_lib clean_table =
     Inr \<lparr>valid = True, missing_columns = [], invalid_types = [], date_format_errors = [],
          billing_category_errors = [], sample_errors = ([], [], [])\<rparr>"
  by code_simp

lemma committed_entries_survive_rollback:
  "map fst (case_file_entries (committed
     (snd (load_case_file_to_db L (sqlite_store True) empty_db nan_title_table 7)))) = [1, 2]
   \<and> map fst (case_file_entries (committed
     (snd (load_case_file_to_db L (sqlite_store False) empty_db nan_title_table 7)))) = []"
  by code_simp



section \<open>Properties of a successful import\<close>

lemma new_rowid_snoc: "new_rowid (ids @ [new_rowid ids]) = new_rowid ids + 1"
  by (cases ids) (simp_all add: new_rowid_def)

lemma upt_0_Suc_shift: "[0..<Suc n] = 0 # map Suc [0..<n]"
  by (simp add: upt_conv_Cons map_Suc_upt del: upt_Suc)

lemma store_entry_effect:
  assumes "store_entry d r = Inr d1"
  shows "\<exists>i. case_file_entries (working d1) = case_file_entries (working d) @ [(i, r)]
           \<and> last_insert_rowid d1 = i
           \<and> (requested_rowid r = Inr None \<longrightarrow>
                i = new_rowid (map fst (case_file_entries (working d))))"
    and "billing_entries (working d1) = billing_entries (working d)"
  using assms
  by (auto simp: store_entry_def Let_def split: sum.splits option.splits if_splits)

lemma insert_billing_effect:
  assumes "insert_billing S d b = Inr d1"
  shows "billing_entries (working d1) =
           billing_entries (working d) @ [(new_rowid (map fst (billing_entries (working d))), b)]"
    and "case_file_entries (working d1) = case_file_entries (working d)"
  using assms by (auto simp: insert_billing_def Let_def split: if_splits)

text \<open>Rows that ask for no id get consecutive ids from \<open>to_sql\<close>.\<close>

lemma to_sql_rows_effect:
  "to_sql_rows S d rs = (None, d') \<Longrightarrow> (\<And>r. r \<in> set rs \<Longrightarrow> requested_rowid r = Inr None) \<Longrightarrow>
     case_file_entries (working d') =
       case_file_entries (working d)
       @ zip (map (\<lambda>i. new_rowid (map fst (case_file_entries (working d))) + int i)
                [0..<length rs]) rs
     \<and> billing_entries (working d') = billing_entries (working d)
     \<and> (rs \<noteq> [] \<longrightarrow>
          last_insert_rowid d' =
            new_rowid (map fst (case_file_entries (working d))) + int (length rs) - 1)"
proof (induction rs arbitrary: d)
  case Nil
  then show ?case by simp
next
  case (Cons r rs)
  let ?k = "new_rowid (map fst (case_file_entries (working d)))"
  from Cons.prems(1) obtain d1 where ins: "store_entry d r = Inr d1"
    and rest: "to_sql_rows S d1 rs = (None, d')"
    by (auto simp: to_sql_insert_def split: sum.splits if_splits)
  have gen: "requested_rowid r = Inr None" using Cons.prems(2) by simp
  from store_entry_effect [OF ins] gen have
    e: "case_file_entries (working d1) = case_file_entries (working d) @ [(?k, r)]"
      "last_insert_rowid d1 = ?k"
      "billing_entries (working d1) = billing_entries (working d)"
    by auto
  have k1: "new_rowid (map fst (case_file_entries (working d1))) = ?k + 1"
    using e(1) by (simp add: new_rowid_snoc)
  have ih: "case_file_entries (working d') =
       case_file_entries (working d1)
       @ zip (map (\<lambda>i. ?k + 1 + int i) [0..<length rs]) rs
     \<and> billing_entries (working d') = billing_entries (working d1)
     \<and> (rs \<noteq> [] \<longrightarrow> last_insert_rowid d' = ?k + 1 + int (length rs) - 1)"
    using Cons.IH [OF rest] Cons.prems(2) unfolding k1 by simp
  have shift: "zip (map (\<lambda>i. ?k + int i) [0..<length (r # rs)]) (r # rs) =
      (?k, r) # zip (map (\<lambda>i. ?k + 1 + int i) [0..<length rs]) rs"
  proof -
    have "map (\<lambda>i. ?k + int i) [0..<Suc (length rs)] =
        ?k # map (\<lambda>i. ?k + 1 + int i) [0..<length rs]"
      unfolding upt_0_Suc_shift by (simp add: comp_def add.commute add.left_commute)
    then show ?thesis by simp
  qed
  have entries: "case_file_entries (working d') =
      case_file_entries (working d) @ zip (map (\<lambda>i. ?k + int i) [0..<length (r # rs)]) (r # rs)"
    using ih e(1) unfolding shift by simp
  have billing: "billing_entries (working d') = billing_entries (working d)"
    using ih e(3) by simp
  have last: "last_insert_rowid d' = ?k + int (length (r # rs)) - 1"
  proof (cases rs)
    case Nil
    with rest e(2) show ?thesis by simp
  next
    case (Cons r' rs')
    then have "rs \<noteq> []" by simp
    with ih show ?thesis by simp
  qed
  show ?case using entries billing last by blast
qed

lemma loader_billing_row_effect:
  assumes "loader_billing_row S cols cid first d ir = Inr d1"
  shows "\<exists>b i. billing_entries (working d1) = billing_entries (working d) @ [(i, b)]
           \<and> be_entry_id b = first + int (fst ir)
           \<and> be_description b = cell_at (snd ir) ''content''"
    and "case_file_entries (working d1) = case_file_entries (working d)"
proof -
  from assms obtain b where ins: "insert_billing S d b = Inr d1"
    and eid: "be_entry_id b = first + int (fst ir)"
    and des: "be_description b = cell_at (snd ir) ''content''"
    by (auto simp: loader_billing_row_def row_item_def Let_def split: sum.splits if_splits)
  from insert_billing_effect [OF ins] eid des
  show "\<exists>b i. billing_entries (working d1) = billing_entries (working d) @ [(i, b)]
           \<and> be_entry_id b = first + int (fst ir)
           \<and> be_description b = cell_at (snd ir) ''content''"
    by blast
  from insert_billing_effect [OF ins]
  show "case_file_entries (working d1) = case_file_entries (working d)" by simp
qed

lemma loader_billing_loop_effect:
  "loader_billing_loop S cols cid first d n irs = (None, d', m) \<Longrightarrow>
     m = n + length irs
     \<and> case_file_entries (working d') = case_file_entries (working d)
     \<and> (\<exists>bs. billing_entries (working d') = billing_entries (working d) @ bs
            \<and> map (\<lambda>b. (be_entry_id (snd b), be_description (snd b))) bs =
                map (\<lambda>ir. (first + int (fst ir), cell_at (snd ir) ''content'')) irs)"
proof (induction irs arbitrary: d n)
  case Nil
  then show ?case by simp
next
  case (Cons ir irs)
  from Cons.prems obtain d1 where row: "loader_billing_row S cols cid first d ir = Inr d1"
    and rest: "loader_billing_loop S cols cid first d1 (Suc n) irs = (None, d', m)"
    by (cases "loader_billing_row S cols cid first d ir") simp_all
  from loader_billing_row_effect(1) [OF row] obtain b i where
    b: "billing_entries (working d1) = billing_entries (working d) @ [(i, b)]"
      "be_entry_id b = first + int (fst ir)"
      "be_description b = cell_at (snd ir) ''content''"
    by (elim exE conjE)
  have e: "case_file_entries (working d1) = case_file_entries (working d)"
    by (rule loader_billing_row_effect(2) [OF row])
  from Cons.IH [OF rest] obtain bs where
    m: "m = Suc n + length irs"
    and e': "case_file_entries (working d') = case_file_entries (working d1)"
    and bs: "billing_entries (working d') = billing_entries (working d1) @ bs"
      "map (\<lambda>b. (be_entry_id (snd b), be_description (snd b))) bs =
         map (\<lambda>ir. (first + int (fst ir), cell_at (snd ir) ''content'')) irs"
    by (elim exE conjE)
  have B1: "billing_entries (working d') = billing_entries (working d) @ ((i, b) # bs)"
    using b(1) bs(1) by simp
  have B2: "map (\<lambda>b. (be_entry_id (snd b), be_description (snd b))) ((i, b) # bs) =
          map (\<lambda>ir. (first + int (fst ir), cell_at (snd ir) ''content'')) (ir # irs)"
    using b(2,3) bs(2) by simp
  have M: "m = n + length (ir # irs)" using m by simp
  have E: "case_file_entries (working d') = case_file_entries (working d)" using e e' by simp
  from B1 B2 have B': "\<exists>bs. billing_entries (working d') = billing_entries (working d) @ bs
      \<and> map (\<lambda>b. (be_entry_id (snd b), be_description (snd b))) bs =
          map (\<lambda>ir. (first + int (fst ir), cell_at (snd ir) ''content'')) (ir # irs)"
    by (intro exI [of _ "(i, b) # bs"] conjI)
  from M E B' show ?case by (intro conjI)
qed

lemma billing_positions_Cons:
  "billing_positions (r # rs) =
     (if cell_at r ''type'' = Str ''billing-type'' then [0] else [])
     @ map Suc (billing_positions rs)"
  unfolding billing_positions_def length_Cons upt_0_Suc_shift
  by (simp add: filter_map comp_def)

lemma billing_rows_from_positions:
  "billing_rows_from idx rs = map (\<lambda>i. (idx + i, rs ! i)) (billing_positions rs)"
proof (induction rs arbitrary: idx)
  case Nil
  then show ?case by (simp add: billing_positions_def)
next
  case (Cons r rs)
  have tail: "map (\<lambda>i. (idx + i, (r # rs) ! i)) (map Suc (billing_positions rs)) =
      map (\<lambda>i. (Suc idx + i, rs ! i)) (billing_positions rs)"
    by (simp add: comp_def)
  have "billing_rows_from idx (r # rs) =
      (if cell_at r ''type'' = Str ''billing-type'' then [(idx, r)] else [])
      @ map (\<lambda>i. (Suc idx + i, rs ! i)) (billing_positions rs)"
    using Cons.IH [of "Suc idx"] by simp
  also have "\<dots> = map (\<lambda>i. (idx + i, (r # rs) ! i)) (billing_positions (r # rs))"
    unfolding billing_positions_Cons map_append tail by simp
  finally show ?case .
qed

lemma length_billing_positions:
  "length (billing_positions rs) =
     length (filter (\<lambda>r. cell_at r ''type'' = Str ''billing-type'') rs)"
proof (induction rs)
  case Nil
  then show ?case by (simp add: billing_positions_def)
next
  case (Cons r rs)
  then show ?case by (simp add: billing_positions_Cons)
qed

text \<open>The row mapper works row by row, and leaves the plain columns as they are.\<close>

lemma rows_convert_date_column: "length (rows (convert_date_column L col d)) = length (rows d)"
  by (simp add: convert_date_column_def)

lemma columns_convert_date_column: "columns (convert_date_column L col d) = columns d"
  by (simp add: convert_date_column_def)

lemma cell_convert_date_column:
  "i < length (rows d) \<Longrightarrow> c \<noteq> col \<Longrightarrow>
     cell_at (rows (convert_date_column L col d) ! i) c = cell_at (rows d ! i) c"
  by (simp add: convert_date_column_def cell_at_def)

lemma length_rows_prepare_import:
  "length (rows (prepare_data_for_import L df cid)) = length (rows df)"
  by (simp add: prepare_data_for_import_def date_columns_def Let_def rows_convert_date_column)

lemma length_rows_prepare_db: "length (rows (prepare_data_for_db L df cid)) = length (rows df)"
  by (simp add: prepare_data_for_db_def date_columns_def Let_def rows_convert_date_column)

lemma length_rows_select: "length (rows (select_columns cols df)) = length (rows df)"
  by (simp add: select_columns_def)

lemma cell_at_Cons: "cell_at ((k, v) # r) c = (if k = c then v else cell_at r c)"
  by (simp add: cell_at_def)

lemma rename_key_cases: "rename_key k = k \<or> rename_key k \<in> snd ` set column_mapping"
proof (cases "map_of column_mapping k")
  case None
  then show ?thesis by (simp add: rename_key_def)
next
  case (Some k')
  then have "(k, k') \<in> set column_mapping" by (rule map_of_SomeD)
  then have "k' \<in> snd ` set column_mapping" by force
  with Some show ?thesis by (simp add: rename_key_def)
qed

lemma rename_key_fixed: "k \<notin> fst ` set column_mapping \<Longrightarrow> rename_key k = k"
  by (simp add: rename_key_def map_of_eq_None_iff [THEN iffD2])

lemma entry_id_no_target: "''entry_id'' \<notin> snd ` set column_mapping"
  by (simp add: column_mapping_def)

lemma plain_no_target: "c \<in> set plain_columns \<Longrightarrow> c \<notin> snd ` set column_mapping"
  by (auto simp: plain_columns_def column_mapping_def)

lemma plain_no_source: "c \<in> set plain_columns \<Longrightarrow> c \<notin> fst ` set column_mapping"
  by (auto simp: plain_columns_def column_mapping_def)

lemma rename_key_entry_id: "rename_key c = ''entry_id'' \<Longrightarrow> c = ''entry_id''"
  using rename_key_cases [of c] entry_id_no_target by auto

lemma rename_key_plain:
  assumes "c \<in> set plain_columns"
  shows "rename_key k = c \<longleftrightarrow> k = c"
proof
  assume "rename_key k = c"
  with rename_key_cases [of k] plain_no_target [OF assms] show "k = c" by auto
next
  assume "k = c"
  with rename_key_fixed [OF plain_no_source [OF assms]] show "rename_key k = c" by simp
qed

lemma cell_at_renamed:
  assumes "c \<in> set plain_columns"
  shows "cell_at (map (\<lambda>(k, v). (rename_key k, v)) r) c = cell_at r c"
proof (induction r)
  case Nil
  show ?case by simp
next
  case (Cons kv r)
  obtain k v where kv: "kv = (k, v)" by (cases kv)
  show ?case
    unfolding kv using Cons.IH by (simp add: cell_at_Cons rename_key_plain [OF assms])
qed

lemma columns_prepare_import:
  "columns (prepare_data_for_import L df cid) =
     map rename_key (if ''case_id'' \<in> set (columns df) then columns df
                     else columns df @ [''case_id''])"
  by (simp add: prepare_data_for_import_def date_columns_def Let_def columns_convert_date_column)

lemma entry_id_not_prepared:
  assumes "''entry_id'' \<notin> set (columns df)"
  shows "''entry_id'' \<notin> set (columns (prepare_data_for_import L df cid))"
proof
  assume "''entry_id'' \<in> set (columns (prepare_data_for_import L df cid))"
  then obtain c where c: "rename_key c = ''entry_id''"
    and mem: "c \<in> set (columns df) \<or> c = ''case_id''"
    unfolding columns_prepare_import by (auto split: if_splits)
  from rename_key_entry_id [OF c] mem assms show False by auto
qed

lemma cell_prepare_import:
  assumes "i < length (rows df)" and "c \<in> set plain_columns"
  shows "cell_at (rows (prepare_data_for_import L df cid) ! i) c = cell_at (rows df ! i) c"
proof -
  define renamed where "renamed =
     \<lparr>columns = map rename_key (if ''case_id'' \<in> set (columns df) then columns df
                                 else columns df @ [''case_id'']),
      rows = map (map (\<lambda>(k, v). (rename_key k, v)))
               (map (\<lambda>r. (''case_id'', Num (of_int cid)) # r) (rows df))\<rparr>"
  define d1 where "d1 = convert_date_column L ''date'' renamed"
  define d2 where "d2 = convert_date_column L ''billing_start'' d1"
  define d3 where "d3 = convert_date_column L ''billing_stop'' d2"
  have ne: "c \<noteq> ''date''" "c \<noteq> ''billing_start''" "c \<noteq> ''billing_stop''" "c \<noteq> ''case_id''"
    using assms(2) by (auto simp: plain_columns_def)
  have "cell_at (rows renamed ! i) c =
      cell_at (map (\<lambda>(k, v). (rename_key k, v)) ((''case_id'', Num (of_int cid)) # rows df ! i)) c"
    using assms(1) by (simp add: renamed_def)
  also have "\<dots> = cell_at ((''case_id'', Num (of_int cid)) # rows df ! i) c"
    by (rule cell_at_renamed [OF assms(2)])
  also have "\<dots> = cell_at (rows df ! i) c"
    using ne(4) by (simp add: cell_at_Cons)
  finally have r: "cell_at (rows renamed ! i) c = cell_at (rows df ! i) c" .
  have l0: "i < length (rows renamed)" using assms(1) by (simp add: renamed_def)
  have l1: "i < length (rows d1)" using l0 by (simp add: d1_def rows_convert_date_column)
  have l2: "i < length (rows d2)" using l1 by (simp add: d2_def rows_convert_date_column)
  have c1: "cell_at (rows d1 ! i) c = cell_at (rows renamed ! i) c"
    unfolding d1_def using l0 ne(1) by (rule cell_convert_date_column)
  have c2: "cell_at (rows d2 ! i) c = cell_at (rows d1 ! i) c"
    unfolding d2_def using l1 ne(2) by (rule cell_convert_date_column)
  have c3: "cell_at (rows d3 ! i) c = cell_at (rows d2 ! i) c"
    unfolding d3_def using l2 ne(3) by (rule cell_convert_date_column)
  have "prepare_data_for_import L df cid = d3"
    by (simp add: prepare_data_for_import_def date_columns_def Let_def
                  d3_def d2_def d1_def renamed_def)
  then show ?thesis
    using c3 c2 c1 r by simp
qed

lemma cell_at_projection:
  "c \<in> set cols \<Longrightarrow> cell_at (map (\<lambda>c. (c, cell_at r c)) cols) c = cell_at r c"
  by (induction cols) (auto simp: cell_at_def)

lemma cell_at_projection_absent:
  "c \<notin> set cols \<Longrightarrow> cell_at (map (\<lambda>c. (c, f c)) cols) c = NA"
  by (induction cols) (auto simp: cell_at_def)

lemma requested_rowid_projection:
  "''entry_id'' \<notin> set cols \<Longrightarrow> requested_rowid (map (\<lambda>c. (c, f c)) cols) = Inr None"
  by (simp add: requested_rowid_def cell_at_projection_absent)


text \<open>
  The import of excel_loader.py on a table without an \<open>entry_id\<close> column, when it reports
  success: \<open>entries_added\<close> is the number of input rows and \<open>billing_entries_added\<close> the
  number of billing-type rows; the entry table has grown by the mapped rows, in order, under
  the consecutive new ids \<open>k, k + 1, ...\<close>; the billing table has grown by exactly one row
  per billing-type input row, in order, and the billing row made from input row \<open>i\<close> (it
  carries the content of that row) has the \<open>entry_id\<close> \<open>k + i\<close>, the id of the entry
  of that row; and everything is committed.
\<close>

lemma generated_ids_link_billing_entries:
  assumes "load_case_file_to_db L S d df cid = (res, d')" and "success res"
    and "''entry_id'' \<notin> set (columns df)"
  shows "entries_added res = length (rows df)
    \<and> billing_entries_added res =
        length (filter (\<lambda>r. cell_at r ''type'' = Str ''billing-type'') (rows df))
    \<and> case_file_entries (working d') =
        case_file_entries (working d)
        @ zip (map (\<lambda>i. new_rowid (map fst (case_file_entries (working d))) + int i)
                 [0..<length (rows df)])
            (rows (select_columns
               (filter (\<lambda>col. col \<in> set (table_columns S))
                  (columns (prepare_data_for_import L df cid)))
               (prepare_data_for_import L df cid)))
    \<and> (\<exists>new_billing.
          billing_entries (working d') = billing_entries (working d) @ new_billing
          \<and> map (\<lambda>b. (be_entry_id (snd b), be_description (snd b))) new_billing =
              map (\<lambda>i. (new_rowid (map fst (case_file_entries (working d))) + int i,
                         cell_at (rows df ! i) ''content''))
                (billing_positions (rows df)))
    \<and> committed d' = working d'"
proof -
  let ?cols = "filter (\<lambda>col. col \<in> set (table_columns S))
                 (columns (prepare_data_for_import L df cid))"
  let ?fdf = "select_columns ?cols (prepare_data_for_import L df cid)"
  let ?k = "new_rowid (map fst (case_file_entries (working d)))"
  let ?n = "length (rows df)"
  have len: "length (rows ?fdf) = ?n"
    by (simp add: length_rows_select length_rows_prepare_import)
  have nocol: "''entry_id'' \<notin> set ?cols"
    using entry_id_not_prepared [OF assms(3)] by simp
  have gen: "requested_rowid r = Inr None" if "r \<in> set (rows ?fdf)" for r
    using that nocol by (auto simp: select_columns_def requested_rowid_projection)
  from assms(1,2) obtain d1 d2 m where
    sql: "to_sql S d ?fdf = (None, d1)"
    and loop: "loader_billing_loop S (columns df) cid (last_insert_rowid d1 - int ?n + 1) d1 0
                 (billing_rows_from 0 (rows df)) = (None, d2, m)"
    and res: "res = \<lparr>success = True, entries_added = ?n, billing_entries_added = m, errors = []\<rparr>"
    and d': "d' = commit d2"
    unfolding load_case_file_to_db_def Let_def len
    by (auto split: prod.splits option.splits if_splits)
  from sql obtain d0 where rows0: "to_sql_rows S d (rows ?fdf) = (None, d0)"
    and d1: "working d1 = working d0" "last_insert_rowid d1 = last_insert_rowid d0"
    by (auto simp: to_sql_def commit_def split: prod.splits option.splits if_splits)
  note t = to_sql_rows_effect [OF rows0 gen, unfolded len]
  have entries1: "case_file_entries (working d1) =
      case_file_entries (working d) @ zip (map (\<lambda>i. ?k + int i) [0..<?n]) (rows ?fdf)"
    and billing1: "billing_entries (working d1) = billing_entries (working d)"
    using t d1 by simp_all
  from loader_billing_loop_effect [OF loop] obtain bs where
    m: "m = 0 + length (billing_rows_from 0 (rows df))"
    and entries2: "case_file_entries (working d2) = case_file_entries (working d1)"
    and bs: "billing_entries (working d2) = billing_entries (working d1) @ bs"
      "map (\<lambda>b. (be_entry_id (snd b), be_description (snd b))) bs =
         map (\<lambda>ir. (last_insert_rowid d1 - int ?n + 1 + int (fst ir), cell_at (snd ir) ''content''))
           (billing_rows_from 0 (rows df))"
    by (elim exE conjE)
  have pos: "billing_rows_from 0 (rows df) =
      map (\<lambda>i. (i, rows df ! i)) (billing_positions (rows df))"
    using billing_rows_from_positions [of 0 "rows df"] by simp
  have count: "m = length (filter (\<lambda>r. cell_at r ''type'' = Str ''billing-type'') (rows df))"
    using m unfolding pos by (simp add: length_billing_positions)
  have ids: "map (\<lambda>b. (be_entry_id (snd b), be_description (snd b))) bs =
      map (\<lambda>i. (?k + int i, cell_at (rows df ! i) ''content'')) (billing_positions (rows df))"
  proof (cases "rows df = []")
    case True
    then show ?thesis using bs(2) by (simp add: billing_positions_def)
  next
    case False
    then have "rows ?fdf \<noteq> []" using len by auto
    then have "last_insert_rowid d1 = ?k + int ?n - 1"
      using t d1(2) by simp
    then have first: "last_insert_rowid d1 - int ?n + 1 = ?k" by simp
    show ?thesis using bs(2) unfolding first pos by (simp add: comp_def)
  qed
  have w: "working d' = working d2" and c: "committed d' = working d'"
    using d' by (simp_all add: commit_def)
  have e: "case_file_entries (working d') =
      case_file_entries (working d) @ zip (map (\<lambda>i. ?k + int i) [0..<?n]) (rows ?fdf)"
    using entries1 entries2 w by simp
  have b1: "billing_entries (working d') = billing_entries (working d) @ bs"
    using bs(1) billing1 w by simp
  from b1 ids have b: "\<exists>new_billing.
      billing_entries (working d') = billing_entries (working d) @ new_billing
      \<and> map (\<lambda>b. (be_entry_id (snd b), be_description (snd b))) new_billing =
          map (\<lambda>i. (?k + int i, cell_at (rows df ! i) ''content'')) (billing_positions (rows df))"
    by (intro exI [of _ bs] conjI)
  have r1: "entries_added res = ?n" and r2: "billing_entries_added res =
      length (filter (\<lambda>r. cell_at r ''type'' = Str ''billing-type'') (rows df))"
    using res count by simp_all
  from r1 r2 e b c show ?thesis by (intro conjI)
qed

text \<open>The entry stored for input row \<open>i\<close> has the plain cells of that row.\<close>

lemma mapped_row_keeps_plain_cells:
  assumes "i < length (rows df)" and "c \<in> set plain_columns"
    and "c \<in> set (table_columns S)" and "c \<in> set (columns df)"
  shows "cell_at (rows (select_columns
                   (filter (\<lambda>col. col \<in> set (table_columns S))
                      (columns (prepare_data_for_import L df cid)))
                   (prepare_data_for_import L df cid)) ! i) c
         = cell_at (rows df ! i) c"
proof -
  let ?p = "prepare_data_for_import L df cid"
  let ?cols = "filter (\<lambda>col. col \<in> set (table_columns S)) (columns ?p)"
  have fixed: "rename_key c = c"
    by (rule rename_key_fixed [OF plain_no_source [OF assms(2)]])
  have "c \<in> rename_key ` set (columns df)"
    using assms(4) fixed by (metis imageI)
  then have "c \<in> set (columns ?p)"
    unfolding columns_prepare_import by auto
  then have mem: "c \<in> set ?cols" using assms(3) by simp
  have i: "i < length (rows ?p)" using assms(1) by (simp add: length_rows_prepare_import)
  have "cell_at (rows (select_columns ?cols ?p) ! i) c = cell_at (rows ?p ! i) c"
    using i mem by (simp add: select_columns_def cell_at_projection)
  then show ?thesis
    using cell_prepare_import [OF assms(1,2)] by simp
qed

lemma generated_ids_example:
  "success (fst (load_case_file_to_db csv_lib (sqlite_store True) empty_db csv_table 7))
   \<and> map (\<lambda>e. (fst e, cell_at (snd e) ''content''))
        (case_file_entries (committed
          (snd (load_case_file_to_db csv_lib (sqlite_store True) empty_db csv_table 7))))
       = [(1, Str ''Call with client'')]
   \<and> map (\<lambda>b. (be_entry_id (snd b), be_description (snd b)))
        (billing_entries (committed
          (snd (load_case_file_to_db csv_lib (sqlite_store True) empty_db csv_table 7))))
       = [(1, Str ''Call with client'')]"
  by code_simp

text \<open>
  C5. The claim is that the billing entry of every billing-type row carries the primary key
  of the entry made from the same row. \<open>load_case_file_to_db\<close> does not read the keys: it
  takes them to be the \<open>len\<close> consecutive numbers that end at \<open>last_insert_rowid()\<close>.
  \<open>reimport_table\<close> passes the validator and brings its own \<open>entry_id\<close> column, which the
  projection onto the table's columns keeps: its three billing rows are stored under the
  ids 11, 10 and 12, the import succeeds, and its billing entries point at 10, 11 and 12, so
  the billing entry of the first row points at the entry of the second. The loop of app.py,
  which reads \<open>cursor.lastrowid\<close> after each insert, links the same rows to 11, 10 and 12.
\<close>

theorem own_entry_ids_mislink_billing_entries:
  "validate_case_file_data csv_lib reimport_table =
     Inr \<lparr>valid = True, missing_columns = [], invalid_types = [], date_format_errors = [],
          billing_category_errors = [], sample_errors = ([], [], [])\<rparr>
   \<and> fst (load_case_file_to_db csv_lib (sqlite_store True) empty_db reimport_table 7) =
       \<lparr>success = True, entries_added = 3, billing_entries_added = 3, errors = []\<rparr>
   \<and> map (\<lambda>e. (fst e, cell_at (snd e) ''content''))
        (case_file_entries (committed
          (snd (load_case_file_to_db csv_lib (sqlite_store True) empty_db reimport_table 7))))
       = [(11, Str ''first''), (10, Str ''second''), (12, Str ''third'')]
   \<and> map (\<lambda>b. (be_entry_id (snd b), be_description (snd b)))
        (billing_entries (committed
          (snd (load_case_file_to_db csv_lib (sqlite_store True) empty_db reimport_table 7))))
       = [(10, Str ''first''), (11, Str ''second''), (12, Str ''third'')]
   \<and> map (\<lambda>b. (be_entry_id (snd b), be_description (snd b)))
        (billing_entries (committed
          (snd (insert_data_to_db csv_lib (sqlite_store True) empty_db
                  (prepare_data_for_db csv_lib reimport_table 7) 7))))
       = [(11, Str ''first''), (10, Str ''second''), (12, Str ''third'')]"
  by code_simp

text \<open>
  The loop of \<open>insert_data_to_db\<close> in app.py, which takes the mapped table: whatever ids
  the entries get, the billing entry of a billing-type row carries the id of the entry made
  from that row.
\<close>

lemma create_billing_entry_effect:
  assumes "create_billing_entry L S cols d cid eid r = Inr d1"
  shows "\<exists>b i. billing_entries (working d1) = billing_entries (working d) @ [(i, b)]
           \<and> be_entry_id b = eid"
    and "case_file_entries (working d1) = case_file_entries (working d)"
proof -
  from assms obtain b where ins: "insert_billing S d b = Inr d1" and eid: "be_entry_id b = eid"
    by (auto simp: create_billing_entry_def split: sum.splits)
  from insert_billing_effect [OF ins] eid
  show "\<exists>b i. billing_entries (working d1) = billing_entries (working d) @ [(i, b)]
           \<and> be_entry_id b = eid"
    by blast
  from insert_billing_effect [OF ins]
  show "case_file_entries (working d1) = case_file_entries (working d)" by simp
qed

lemma insert_rows_effect:
  "insert_rows L S cols cid d n rs = (None, d', m) \<Longrightarrow>
     m = n + length rs
     \<and> (rs \<noteq> [] \<longrightarrow> ''type'' \<in> set cols)
     \<and> (\<exists>ids bs. length ids = length rs
          \<and> case_file_entries (working d') =
              case_file_entries (working d)
              @ zip ids (map (\<lambda>r. map (\<lambda>col. (col, format_timestamp L (cell_at r col))) cols) rs)
          \<and> billing_entries (working d') = billing_entries (working d) @ bs
          \<and> map (\<lambda>b. be_entry_id (snd b)) bs = map (\<lambda>i. ids ! i) (billing_positions rs))"
proof (induction rs arbitrary: d n)
  case Nil
  then show ?case by (simp add: billing_positions_def)
next
  case (Cons r rs)
  let ?vals = "map (\<lambda>col. (col, format_timestamp L (cell_at r col))) cols"
  let ?rows = "map (\<lambda>r. map (\<lambda>col. (col, format_timestamp L (cell_at r col))) cols)"
  from Cons.prems obtain d1 where ins: "insert_entry S d ?vals = Inr d1"
    by (cases "insert_entry S d ?vals") simp_all
  then have st: "store_entry d ?vals = Inr d1"
    by (simp add: insert_entry_def split: if_splits)
  from store_entry_effect(1) [OF st] obtain i where
    e1: "case_file_entries (working d1) = case_file_entries (working d) @ [(i, ?vals)]"
    and last: "last_insert_rowid d1 = i"
    by (elim exE conjE)
  have b1: "billing_entries (working d1) = billing_entries (working d)"
    by (rule store_entry_effect(2) [OF st])
  from Cons.prems ins have ty: "row_item cols r ''type'' = Inr (cell_at r ''type'')"
    and tycol: "''type'' \<in> set cols"
    by (auto simp: row_item_def split: sum.splits if_splits)
  have pshift: "map (\<lambda>j. (i # ids) ! j) (map Suc (billing_positions rs)) =
      map (\<lambda>j. ids ! j) (billing_positions rs)" for ids :: "int list"
    by (simp add: comp_def)
  show ?case
  proof (cases "cell_at r ''type'' = Str ''billing-type''")
    case False
    with Cons.prems ins ty have rest: "insert_rows L S cols cid d1 (Suc n) rs = (None, d', m)"
      by simp
    from Cons.IH [OF rest] obtain ids bs where
      m: "m = Suc n + length rs"
      and len: "length ids = length rs"
      and er: "case_file_entries (working d') = case_file_entries (working d1) @ zip ids (?rows rs)"
      and bs: "billing_entries (working d') = billing_entries (working d1) @ bs"
        "map (\<lambda>b. be_entry_id (snd b)) bs = map (\<lambda>j. ids ! j) (billing_positions rs)"
      by (elim exE conjE)
    have M: "m = n + length (r # rs)" using m by simp
    have L': "length (i # ids) = length (r # rs)" using len by simp
    have E: "case_file_entries (working d') =
        case_file_entries (working d) @ zip (i # ids) (?rows (r # rs))"
      using er e1 by simp
    have B1: "billing_entries (working d') = billing_entries (working d) @ bs"
      using bs(1) b1 by simp
    have B2: "map (\<lambda>b. be_entry_id (snd b)) bs =
        map (\<lambda>j. (i # ids) ! j) (billing_positions (r # rs))"
      using bs(2) False unfolding billing_positions_Cons by (simp add: pshift del: map_map)
    from L' E B1 B2 have X: "\<exists>ids bs. length ids = length (r # rs)
        \<and> case_file_entries (working d') =
            case_file_entries (working d) @ zip ids (?rows (r # rs))
        \<and> billing_entries (working d') = billing_entries (working d) @ bs
        \<and> map (\<lambda>b. be_entry_id (snd b)) bs = map (\<lambda>j. ids ! j) (billing_positions (r # rs))"
      by (intro exI [of _ "i # ids"] exI [of _ bs] conjI)
    from M tycol X show ?thesis by (intro conjI impI)
  next
    case True
    with Cons.prems ins ty obtain d2 where
      cb: "create_billing_entry L S cols d1 cid (last_insert_rowid d1) r = Inr d2"
      and rest: "insert_rows L S cols cid d2 (Suc n) rs = (None, d', m)"
      by (cases "create_billing_entry L S cols d1 cid (last_insert_rowid d1) r") simp_all
    from create_billing_entry_effect(1) [OF cb] obtain b j where
      b: "billing_entries (working d2) = billing_entries (working d1) @ [(j, b)]"
        "be_entry_id b = last_insert_rowid d1"
      by (elim exE conjE)
    have e2: "case_file_entries (working d2) = case_file_entries (working d1)"
      by (rule create_billing_entry_effect(2) [OF cb])
    from Cons.IH [OF rest] obtain ids bs where
      m: "m = Suc n + length rs"
      and len: "length ids = length rs"
      and er: "case_file_entries (working d') = case_file_entries (working d2) @ zip ids (?rows rs)"
      and bs: "billing_entries (working d') = billing_entries (working d2) @ bs"
        "map (\<lambda>b. be_entry_id (snd b)) bs = map (\<lambda>j. ids ! j) (billing_positions rs)"
      by (elim exE conjE)
    have M: "m = n + length (r # rs)" using m by simp
    have L': "length (i # ids) = length (r # rs)" using len by simp
    have E: "case_file_entries (working d') =
        case_file_entries (working d) @ zip (i # ids) (?rows (r # rs))"
      using er e1 e2 by simp
    have B1: "billing_entries (working d') = billing_entries (working d) @ ((j, b) # bs)"
      using bs(1) b(1) b1 by simp
    have B2: "map (\<lambda>b. be_entry_id (snd b)) ((j, b) # bs) =
        map (\<lambda>j. (i # ids) ! j) (billing_positions (r # rs))"
      using bs(2) b(2) last True unfolding billing_positions_Cons
      by (simp add: pshift del: map_map)
    from L' E B1 B2 have X: "\<exists>ids bs. length ids = length (r # rs)
        \<and> case_file_entries (working d') =
            case_file_entries (working d) @ zip ids (?rows (r # rs))
        \<and> billing_entries (working d') = billing_entries (working d) @ bs
        \<and> map (\<lambda>b. be_entry_id (snd b)) bs = map (\<lambda>j. ids ! j) (billing_positions (r # rs))"
      by (intro exI [of _ "i # ids"] exI [of _ "(j, b) # bs"] conjI)
    from M tycol X show ?thesis by (intro conjI impI)
  qed
qed

lemma billing_positions_select:
  "''type'' \<in> set cols \<Longrightarrow>
     billing_positions (rows (select_columns cols df)) = billing_positions (rows df)"
  by (auto simp: billing_positions_def select_columns_def cell_at_projection
           intro!: filter_cong)

lemma app_import_links_billing_entries:
  assumes "insert_data_to_db L S d df cid = (Inr n, d')"
  shows "n = length (rows df)
    \<and> (\<exists>ids entry_rows new_billing.
          length ids = length (rows df) \<and> length entry_rows = length (rows df)
          \<and> case_file_entries (working d') = case_file_entries (working d) @ zip ids entry_rows
          \<and> billing_entries (working d') = billing_entries (working d) @ new_billing
          \<and> map (\<lambda>b. be_entry_id (snd b)) new_billing =
              map (\<lambda>i. ids ! i) (billing_positions (rows df)))
    \<and> committed d' = working d'"
proof -
  let ?cols = "filter (\<lambda>col. col \<in> set (table_columns S)) (columns df)"
  let ?fdf = "select_columns ?cols df"
  let ?rows = "map (\<lambda>r. map (\<lambda>col. (col, format_timestamp L (cell_at r col))) ?cols)"
  from assms obtain d2 where
    loop: "insert_rows L S ?cols cid d 0 (rows ?fdf) = (None, d2, n)"
    and d': "d' = commit d2"
    by (auto simp: insert_data_to_db_def Let_def split: prod.splits option.splits)
  have len: "length (rows ?fdf) = length (rows df)" by (rule length_rows_select)
  from insert_rows_effect [OF loop] obtain ids bs where
    n: "n = 0 + length (rows ?fdf)"
    and ty: "rows ?fdf \<noteq> [] \<longrightarrow> ''type'' \<in> set ?cols"
    and l: "length ids = length (rows ?fdf)"
    and e: "case_file_entries (working d2) =
              case_file_entries (working d) @ zip ids (?rows (rows ?fdf))"
    and b: "billing_entries (working d2) = billing_entries (working d) @ bs"
      "map (\<lambda>b. be_entry_id (snd b)) bs = map (\<lambda>i. ids ! i) (billing_positions (rows ?fdf))"
    by (elim exE conjE)
  have pos: "billing_positions (rows ?fdf) = billing_positions (rows df)"
  proof (cases "rows df = []")
    case True
    then show ?thesis by (simp add: billing_positions_def select_columns_def)
  next
    case False
    then have "rows ?fdf \<noteq> []" using len by auto
    with ty have "''type'' \<in> set ?cols" by simp
    then show ?thesis by (rule billing_positions_select)
  qed
  have w: "working d' = working d2" and c: "committed d' = working d'"
    using d' by (simp_all add: commit_def)
  have N: "n = length (rows df)" using n len by simp
  have L1: "length ids = length (rows df)" using l len by simp
  have L2: "length (?rows (rows ?fdf)) = length (rows df)" using len by simp
  have E: "case_file_entries (working d') =
      case_file_entries (working d) @ zip ids (?rows (rows ?fdf))"
    using e w by simp
  have B1: "billing_entries (working d') = billing_entries (working d) @ bs"
    using b(1) w by simp
  have B2: "map (\<lambda>b. be_entry_id (snd b)) bs = map (\<lambda>i. ids ! i) (billing_positions (rows df))"
    using b(2) pos by simp
  from L1 L2 E B1 B2 have X: "\<exists>ids entry_rows new_billing.
          length ids = length (rows df) \<and> length entry_rows = length (rows df)
          \<and> case_file_entries (working d') = case_file_entries (working d) @ zip ids entry_rows
          \<and> billing_entries (working d') = billing_entries (working d) @ new_billing
          \<and> map (\<lambda>b. be_entry_id (snd b)) new_billing =
              map (\<lambda>i. ids ! i) (billing_positions (rows df))"
    by (intro exI [of _ ids] exI [of _ "?rows (rows ?fdf)"] exI [of _ bs] conjI)
  from N X c show ?thesis by (intro conjI)
qed


section \<open>The validator of app.py\<close>

lemma app_check_columns_acc:
  "app_check_columns dc cs v =
     (if filter (\<lambda>c. c \<notin> set dc) cs = [] then v
      else v\<lparr>av_valid := False,
             av_missing_columns := av_missing_columns v @ filter (\<lambda>c. c \<notin> set dc) cs\<rparr>)"
  by (induction cs arbitrary: v) auto

text \<open>It stops after the column check as well.\<close>

lemma app_missing_columns_short_circuit:
  assumes "\<exists>c \<in> set required_columns. c \<notin> set (columns df)"
  shows "app_validate_case_file_data L df =
     \<lparr>av_valid = False,
      av_missing_columns = filter (\<lambda>c. c \<notin> set (columns df)) required_columns,
      av_invalid_entries = []\<rparr>"
proof -
  have "filter (\<lambda>c. c \<notin> set (columns df)) required_columns \<noteq> []"
    using assms unfolding filter_empty_conv by auto
  then show ?thesis
    by (simp add: app_validate_case_file_data_def app_check_columns_acc Let_def)
qed

text \<open>
  C8. The claim gives a type violation the row number \<open>index + 2\<close>. The validator of
  validation.py does so (\<open>invalid_type_rows_recorded\<close> above). The validator of app.py,
  which the server's import runs, records \<open>index + 1\<close>: for the table whose rows 0 and 2
  have a bad type it reports the rows 1 and 3, where validation.py reports 2 and 4.
\<close>

theorem app_validator_row_numbers:
  "app_validate_case_file_data L two_bad_types_table =
     \<lparr>av_valid = False, av_missing_columns = [],
      av_invalid_entries = [InvalidEntry 1 ''Invalid entry type: memo-type'',
                            InvalidEntry 3 ''Invalid entry type: nan'']\<rparr>
   \<and> map it_row (check_types L 0 (map (\<lambda>r. cell_at r ''type'') (rows two_bad_types_table)))
       = [2, 4]"
  by code_simp


end
